theory Spec2Isabelle
  imports Main
begin

section \<open>Kiosk agent: the heartbeat channel, the command stream and command dispatch\<close>

text \<open>
  A shallow embedding of \<^verbatim>\<open>kiosk-os/services/kiosk-agent.py\<close> (class \<^verbatim>\<open>KioskAgent\<close>).
  Python values are a datatype, exceptions are values, a coroutine is a function from the
  world before it to its outcome and the world after it, and everything the agent does to
  the outside (log calls, requests, sleeps, stream replies, the reboot command) is an
  event appended to a trace. What the outside answers (the host, the server, the stream)
  is an explicit argument: every theorem holds for every such answer unless it says
  otherwise.
\<close>

subsection \<open>Python values and exceptions\<close>

text \<open>
  A finite float is \<open>Float m e\<close>, the number \<open>m * 2 ^ e\<close>. No modelled function inspects
  a float. A \<^verbatim>\<open>dict\<close> with string keys is its list of items in insertion order.
\<close>

datatype pyfloat = Float int int | PosInf | NegInf | NaN

datatype pyval =
    PNone
  | PBool bool
  | PInt int
  | PFloat pyfloat
  | PStr string
  | PList "pyval list"
  | PDict "(string \<times> pyval) list"

text \<open>
  The subclasses of \<^verbatim>\<open>Exception\<close> the modelled calls raise, and what a
  \<^verbatim>\<open>raise\<close> carries: an \<^verbatim>\<open>Exception\<close>, or \<^verbatim>\<open>asyncio.CancelledError\<close>,
  which derives from \<^verbatim>\<open>BaseException\<close> (Python 3.8 and later) and so passes every
  \<^verbatim>\<open>except Exception\<close>.
\<close>

datatype pyexc =
    AttributeError | TypeError | IndexError | ValueError | KeyError | OverflowError
  | OSError | JSONDecodeError | NoOptionError | ConnectionClosedError | ClientError
  | TimeoutError

datatype raised = Exception pyexc | CancelledError

text \<open>
  How a call ends: it returns, it raises, or it never comes back (\<open>Hang\<close>: a child
  process that does not exit, a stream that stays silent).
\<close>

datatype 'a outcome = Return 'a | Raise raised | Hang

subsection \<open>The trace\<close>

datatype level = DEBUG | INFO | WARNING | ERROR

text \<open>One constructor per log line of the modelled methods, with the values it formats.\<close>

datatype logmsg =
    FailedCollectSystemInfo pyexc
  | HeartbeatSent
  | FailedProcessServerResponse pyexc
  | HeartbeatFailedHTTP int
  | FailedSendHeartbeat pyexc
  | ProcessingCommand pyval
  | UnknownCommandType pyval
  | FailedProcessCommand pyval pyexc
  | SystemRestartRequested
  | SystemUpdateRequested
  | InstallingApplication pyval
  | UninstallingApplication pyval
  | SystemConfigurationRequested
  | WebSocketConnected
  | FailedProcessWebSocketMessage pyexc
  | WebSocketConnectionFailed pyexc
  | UnknownWebSocketMessageType pyval
  | HeartbeatLoopError pyexc
  | WebSocketLoopError pyexc

text \<open>A call of one of the five executor methods, with its argument.\<close>

datatype action =
    Restart_system
  | Update_system pyval
  | Install_application pyval
  | Uninstall_application pyval
  | Configure_system pyval

text \<open>
  \<open>Log\<close> is a call of a logger method; \<open>Exec\<close> marks the entry into an executor
  method; \<open>Subprocess\<close> is \<^verbatim>\<open>subprocess.run\<close> of the reboot command; \<open>Post\<close> is
  the heartbeat request (url, JSON body, headers); \<open>Sleep\<close> is \<^verbatim>\<open>asyncio.sleep\<close>;
  \<open>Connect\<close> is \<^verbatim>\<open>websockets.connect\<close> (url, headers); \<open>Send\<close> is
  \<^verbatim>\<open>websocket.send\<close> on the connection with that handle; \<open>Close\<close> is leaving the
  \<^verbatim>\<open>async with\<close> block of a connection, which closes it.
\<close>

datatype event =
    Log level logmsg
  | Exec action
  | Subprocess "string list"
  | Post string pyval "(string \<times> string) list"
  | Sleep int
  | Connect string "(string \<times> string) list"
  | Send nat string
  | Close nat

text \<open>
  The agent's mutable state as the modelled methods use it: the trace, and
  \<^verbatim>\<open>self.websocket\<close> (\<open>None\<close> until the first connection; the handle of the
  connection afterwards).
\<close>

record world =
  trace :: "event list"
  websocket :: "nat option"

definition emit :: "event \<Rightarrow> world \<Rightarrow> world" where
  "emit ev w = w\<lparr>trace := trace w @ [ev]\<rparr>"

definition log :: "level \<Rightarrow> logmsg \<Rightarrow> world \<Rightarrow> world" where
  "log l m w = emit (Log l m) w"

subsection \<open>Sequencing and \<^verbatim>\<open>try\<close>/\<^verbatim>\<open>except Exception\<close>\<close>

definition and_then :: "'a outcome \<times> 's \<Rightarrow> ('a \<Rightarrow> 's \<Rightarrow> 'b outcome \<times> 's) \<Rightarrow> 'b outcome \<times> 's" where
  "and_then r f =
     (case r of
        (Return x, s) \<Rightarrow> f x s
      | (Raise e, s) \<Rightarrow> (Raise e, s)
      | (Hang, s) \<Rightarrow> (Hang, s))"

text \<open>
  \<^verbatim>\<open>except Exception as e:\<close> runs the handler on an \<^verbatim>\<open>Exception\<close> only; what the
  handler raises propagates.
\<close>

definition except_Exception :: "'a outcome \<times> 's \<Rightarrow> (pyexc \<Rightarrow> 's \<Rightarrow> 'a outcome \<times> 's) \<Rightarrow> 'a outcome \<times> 's" where
  "except_Exception r h =
     (case r of
        (Raise (Exception e), s) \<Rightarrow> h e s
      | _ \<Rightarrow> r)"

text \<open>The value of a synchronous library call that may raise.\<close>

definition lift :: "pyexc + 'a \<Rightarrow> 's \<Rightarrow> 'a outcome \<times> 's" where
  "lift r s = (case r of Inl e \<Rightarrow> (Raise (Exception e), s) | Inr x \<Rightarrow> (Return x, s))"

subsection \<open>Operations on Python values\<close>

text \<open>\<^verbatim>\<open>obj.get(key, default)\<close>: only a \<^verbatim>\<open>dict\<close> has the method.\<close>

definition py_get :: "pyval \<Rightarrow> string \<Rightarrow> pyval \<Rightarrow> pyexc + pyval" where
  "py_get obj k dflt =
     (case obj of
        PDict kvs \<Rightarrow> Inr (case map_of kvs k of Some v \<Rightarrow> v | None \<Rightarrow> dflt)
      | _ \<Rightarrow> Inl AttributeError)"

text \<open>\<^verbatim>\<open>sub in s\<close> on strings.\<close>

fun contains_str :: "string \<Rightarrow> string \<Rightarrow> bool" where
  "contains_str sub [] = (sub = [])"
| "contains_str sub (c # cs) = (take (length sub) (c # cs) = sub \<or> contains_str sub cs)"

text \<open>
  \<^verbatim>\<open>key in obj\<close> for a string \<open>key\<close>: a key of a dict, an element of a list, a
  substring of a string; \<^verbatim>\<open>TypeError\<close> on anything else.
\<close>

definition py_contains :: "pyval \<Rightarrow> string \<Rightarrow> pyexc + bool" where
  "py_contains obj k =
     (case obj of
        PDict kvs \<Rightarrow> Inr (map_of kvs k \<noteq> None)
      | PList xs \<Rightarrow> Inr (List.member xs (PStr k))
      | PStr s \<Rightarrow> Inr (contains_str k s)
      | _ \<Rightarrow> Inl TypeError)"

text \<open>\<^verbatim>\<open>obj[key]\<close> for a string \<open>key\<close>.\<close>

definition py_subscript :: "pyval \<Rightarrow> string \<Rightarrow> pyexc + pyval" where
  "py_subscript obj k =
     (case obj of
        PDict kvs \<Rightarrow> (case map_of kvs k of Some v \<Rightarrow> Inr v | None \<Rightarrow> Inl KeyError)
      | _ \<Rightarrow> Inl TypeError)"

text \<open>
  \<^verbatim>\<open>for x in obj\<close>: the elements of a list, the keys of a dict, the characters of a
  string; \<^verbatim>\<open>TypeError\<close> on anything else.
\<close>

definition py_iter :: "pyval \<Rightarrow> pyexc + pyval list" where
  "py_iter obj =
     (case obj of
        PList xs \<Rightarrow> Inr xs
      | PDict kvs \<Rightarrow> Inr (map (\<lambda>kv. PStr (fst kv)) kvs)
      | PStr s \<Rightarrow> Inr (map (\<lambda>c. PStr [c]) s)
      | _ \<Rightarrow> Inl TypeError)"

subsection \<open>The command executor\<close>

text \<open>What \<^verbatim>\<open>subprocess.run\<close> does: the child exits (return code, output), the call raises, or the child never exits.\<close>

datatype proc_result = Completed int string | ProcRaises pyexc | ProcHangs

definition restart_system :: "(string list \<Rightarrow> proc_result) \<Rightarrow> world \<Rightarrow> unit outcome \<times> world" where
  "restart_system run w =
     (let w1 = log INFO SystemRestartRequested (emit (Exec Restart_system) w);
          w2 = emit (Subprocess [''sudo'', ''systemctl'', ''reboot'']) w1
      in case run [''sudo'', ''systemctl'', ''reboot''] of
           Completed rc out \<Rightarrow> (Return (), w2)
         | ProcRaises e \<Rightarrow> (Raise (Exception e), w2)
         | ProcHangs \<Rightarrow> (Hang, w2))"

definition update_system :: "pyval \<Rightarrow> world \<Rightarrow> unit outcome \<times> world" where
  "update_system data w =
     (Return (), log INFO SystemUpdateRequested (emit (Exec (Update_system data)) w))"

definition install_application :: "pyval \<Rightarrow> world \<Rightarrow> unit outcome \<times> world" where
  "install_application data w =
     and_then (lift (py_get data ''name'' PNone) (emit (Exec (Install_application data)) w)) (\<lambda>app_name w1.
     and_then (lift (py_get data ''url'' PNone) w1) (\<lambda>app_url w2.
       (Return (), log INFO (InstallingApplication app_name) w2)))"

definition uninstall_application :: "pyval \<Rightarrow> world \<Rightarrow> unit outcome \<times> world" where
  "uninstall_application data w =
     and_then (lift (py_get data ''name'' PNone) (emit (Exec (Uninstall_application data)) w)) (\<lambda>app_name w1.
       (Return (), log INFO (UninstallingApplication app_name) w1))"

definition configure_system :: "pyval \<Rightarrow> world \<Rightarrow> unit outcome \<times> world" where
  "configure_system data w =
     (Return (), log INFO SystemConfigurationRequested (emit (Exec (Configure_system data)) w))"

subsection \<open>The command dispatcher: \<^verbatim>\<open>process_commands\<close>\<close>

text \<open>The body of the \<^verbatim>\<open>try\<close> for one element of the batch.\<close>

definition dispatch_try :: "(string list \<Rightarrow> proc_result) \<Rightarrow> pyval \<Rightarrow> world \<Rightarrow> unit outcome \<times> world" where
  "dispatch_try run command w =
     and_then (lift (py_get command ''type'' PNone) w) (\<lambda>command_type w0.
       let w1 = log INFO (ProcessingCommand command_type) w0 in
       if command_type = PStr ''restart'' then restart_system run w1
       else if command_type = PStr ''update'' then
         and_then (lift (py_get command ''data'' (PDict [])) w1) update_system
       else if command_type = PStr ''install_app'' then
         and_then (lift (py_get command ''data'' (PDict [])) w1) install_application
       else if command_type = PStr ''uninstall_app'' then
         and_then (lift (py_get command ''data'' (PDict [])) w1) uninstall_application
       else if command_type = PStr ''configure'' then
         and_then (lift (py_get command ''data'' (PDict [])) w1) configure_system
       else (Return (), log WARNING (UnknownCommandType command_type) w1))"

text \<open>
  The handler \<^verbatim>\<open>except Exception as e\<close>: its log line formats
  \<^verbatim>\<open>command.get('type')\<close>, a second call of \<^verbatim>\<open>get\<close> on the element.
\<close>

definition dispatch_except :: "pyval \<Rightarrow> pyexc \<Rightarrow> world \<Rightarrow> unit outcome \<times> world" where
  "dispatch_except command e w =
     and_then (lift (py_get command ''type'' PNone) w) (\<lambda>command_type w0.
       (Return (), log ERROR (FailedProcessCommand command_type e) w0))"

fun for_command :: "(string list \<Rightarrow> proc_result) \<Rightarrow> pyval list \<Rightarrow> world \<Rightarrow> unit outcome \<times> world" where
  "for_command run [] w = (Return (), w)"
| "for_command run (command # rest) w =
     and_then (except_Exception (dispatch_try run command w) (dispatch_except command))
       (\<lambda>_. for_command run rest)"

definition process_commands :: "(string list \<Rightarrow> proc_result) \<Rightarrow> pyval \<Rightarrow> world \<Rightarrow> unit outcome \<times> world" where
  "process_commands run commands w =
     and_then (lift (py_iter commands) w) (for_command run)"

subsection \<open>Strings\<close>

text \<open>
  A \<open>char\<close> is one of the code points 0 to 255. \<open>is_space\<close> is \<^verbatim>\<open>str.isspace\<close>
  there: what \<^verbatim>\<open>strip()\<close> removes and \<^verbatim>\<open>split()\<close> splits at.
\<close>

definition is_space :: "char \<Rightarrow> bool" where
  "is_space c =
     (let n = (of_char c :: nat)
      in (9 \<le> n \<and> n \<le> 13) \<or> (28 \<le> n \<and> n \<le> 32) \<or> n = 133 \<or> n = 160)"

definition strip :: "string \<Rightarrow> string" where
  "strip s = rev (dropWhile is_space (rev (dropWhile is_space s)))"

definition startswith :: "string \<Rightarrow> string \<Rightarrow> bool" where
  "startswith s p = (take (length p) s = p)"

text \<open>\<^verbatim>\<open>s.split(sep)\<close> for a separator of one character: never empty.\<close>

fun split_on :: "char \<Rightarrow> string \<Rightarrow> string list" where
  "split_on sep [] = [[]]"
| "split_on sep (c # cs) =
     (if c = sep then [] # split_on sep cs
      else (case split_on sep cs of
              [] \<Rightarrow> [[c]]
            | part # parts \<Rightarrow> (c # part) # parts))"

text \<open>\<^verbatim>\<open>s.split()\<close>: the maximal runs of characters that are not whitespace.\<close>

fun split_ws_from :: "string \<Rightarrow> string \<Rightarrow> string list" where
  "split_ws_from cur [] = (if cur = [] then [] else [rev cur])"
| "split_ws_from cur (c # cs) =
     (if is_space c then (if cur = [] then split_ws_from [] cs else rev cur # split_ws_from [] cs)
      else split_ws_from (c # cur) cs)"

definition split_ws :: "string \<Rightarrow> string list" where
  "split_ws s = split_ws_from [] s"

text \<open>\<^verbatim>\<open>s.replace(old, new)\<close> for a non-empty \<open>old\<close>, the only use the agent makes of it.\<close>

fun py_replace :: "string \<Rightarrow> string \<Rightarrow> string \<Rightarrow> string" where
  "py_replace old new [] = []"
| "py_replace old new (c # cs) =
     (if old \<noteq> [] \<and> take (length old) (c # cs) = old
      then new @ py_replace old new (drop (length old - 1) cs)
      else c # py_replace old new cs)"

text \<open>\<^verbatim>\<open>xs[i]\<close> for \<open>i \<ge> 0\<close>.\<close>

definition py_index :: "'a list \<Rightarrow> nat \<Rightarrow> pyexc + 'a" where
  "py_index xs i = (if i < length xs then Inr (xs ! i) else Inl IndexError)"

definition bind_exc :: "pyexc + 'a \<Rightarrow> ('a \<Rightarrow> pyexc + 'b) \<Rightarrow> pyexc + 'b" where
  "bind_exc r f = (case r of Inl e \<Rightarrow> Inl e | Inr x \<Rightarrow> f x)"

text \<open>\<^verbatim>\<open>d[k] = v\<close>: a present key keeps its place, a new key goes last.\<close>

fun dict_set :: "(string \<times> pyval) list \<Rightarrow> string \<Rightarrow> pyval \<Rightarrow> (string \<times> pyval) list" where
  "dict_set [] k v = [(k, v)]"
| "dict_set ((k', v') # kvs) k v =
     (if k' = k then (k, v) # kvs else (k', v') # dict_set kvs k v)"

subsection \<open>The telemetry snapshot: \<^verbatim>\<open>get_system_info\<close>\<close>

text \<open>
  What the host answers during one snapshot: \<^verbatim>\<open>os.uname()\<close>, the clock,
  \<^verbatim>\<open>open(path).read()\<close>, \<^verbatim>\<open>os.path.exists\<close>, \<^verbatim>\<open>shutil.disk_usage('/')\<close> (total,
  used, free) and \<^verbatim>\<open>subprocess.run\<close>.
\<close>

record host =
  nodename :: string
  release :: string
  machine :: string
  utcnow_isoformat :: string
  read_text :: "string \<Rightarrow> pyexc + string"
  path_exists :: "string \<Rightarrow> bool"
  disk_usage :: "pyexc + (int \<times> int \<times> int)"
  subprocess_run :: "string list \<Rightarrow> proc_result"

text \<open>
  Library functions the agent calls and this theory does not define: \<^verbatim>\<open>int(s)\<close>,
  \<^verbatim>\<open>float(s)\<close>, \<^verbatim>\<open>n / 1000.0\<close> and \<^verbatim>\<open>json.loads\<close>.
\<close>

record builtins =
  py_int :: "string \<Rightarrow> pyexc + int"
  py_float :: "string \<Rightarrow> pyexc + pyfloat"
  truediv_1000 :: "int \<Rightarrow> pyexc + pyfloat"
  json_loads :: "string \<Rightarrow> pyexc + pyval"

definition collect_cpu :: "host \<Rightarrow> (string \<times> pyval) list \<Rightarrow> unit outcome \<times> (string \<times> pyval) list" where
  "collect_cpu h info =
     and_then (lift (read_text h ''/proc/cpuinfo'') info) (\<lambda>cpu_info info1.
       let info2 = dict_set info1 ''cpu_model'' (PStr ''Unknown'') in
       case List.find (\<lambda>line. startswith line ''model name'') (split_on (CHR 0x0A) cpu_info) of
         None \<Rightarrow> (Return (), info2)
       | Some line \<Rightarrow>
           and_then (lift (py_index (split_on CHR '':'' line) 1) info2) (\<lambda>model info3.
             (Return (), dict_set info3 ''cpu_model'' (PStr (strip model)))))"

fun meminfo_lines :: "builtins \<Rightarrow> string list \<Rightarrow> (string \<times> pyval) list \<Rightarrow> unit outcome \<times> (string \<times> pyval) list" where
  "meminfo_lines py [] info = (Return (), info)"
| "meminfo_lines py (line # rest) info =
     (if startswith line ''MemTotal:'' then
        and_then (lift (bind_exc (py_index (split_ws line) 1) (py_int py)) info) (\<lambda>kb info1.
          meminfo_lines py rest (dict_set info1 ''memory_total'' (PInt (kb * 1024))))
      else if startswith line ''MemAvailable:'' then
        and_then (lift (bind_exc (py_index (split_ws line) 1) (py_int py)) info) (\<lambda>kb info1.
          meminfo_lines py rest (dict_set info1 ''memory_available'' (PInt (kb * 1024))))
      else meminfo_lines py rest info)"

definition collect_memory :: "builtins \<Rightarrow> host \<Rightarrow> (string \<times> pyval) list \<Rightarrow> unit outcome \<times> (string \<times> pyval) list" where
  "collect_memory py h info =
     and_then (lift (read_text h ''/proc/meminfo'') info) (\<lambda>mem_info.
       meminfo_lines py (split_on (CHR 0x0A) mem_info))"

definition collect_disk :: "host \<Rightarrow> (string \<times> pyval) list \<Rightarrow> unit outcome \<times> (string \<times> pyval) list" where
  "collect_disk h info =
     and_then (lift (disk_usage h) info) (\<lambda>usage info1.
       case usage of (n_total, n_used, n_free) \<Rightarrow>
         (Return (),
          dict_set (dict_set (dict_set info1 ''disk_total'' (PInt n_total)) ''disk_free'' (PInt n_free))
            ''disk_used'' (PInt n_used)))"

text \<open>\<^verbatim>\<open>_parse_network_interfaces\<close>: the interface being read and the ones finished.\<close>

record interface =
  if_name :: string
  if_state :: string
  if_addresses :: "(string \<times> string) list"

definition add_address :: "string \<Rightarrow> string \<Rightarrow> interface \<Rightarrow> interface" where
  "add_address kind addr i = i\<lparr>if_addresses := if_addresses i @ [(kind, addr)]\<rparr>"

fun parse_lines :: "string list \<Rightarrow> interface list \<Rightarrow> interface option \<Rightarrow> interface list" where
  "parse_lines [] interfaces current_interface =
     (case current_interface of None \<Rightarrow> interfaces | Some c \<Rightarrow> interfaces @ [c])"
| "parse_lines (raw # rest) interfaces current_interface =
     (let line = strip raw in
      if line \<noteq> [] \<and> \<not> startswith line '' '' then
        (let parts = split_on CHR '':'' line in
         if length parts \<ge> 2 then
           parse_lines rest
             (case current_interface of None \<Rightarrow> interfaces | Some c \<Rightarrow> interfaces @ [c])
             (Some \<lparr>if_name = strip (parts ! 1),
                    if_state = (if contains_str ''UP'' line then ''UP'' else ''DOWN''),
                    if_addresses = []\<rparr>)
         else parse_lines rest interfaces current_interface)
      else if startswith line ''inet '' \<and> current_interface \<noteq> None then
        (let addr_parts = split_ws line in
         if length addr_parts \<ge> 2
         then parse_lines rest interfaces (map_option (add_address ''ipv4'' (addr_parts ! 1)) current_interface)
         else parse_lines rest interfaces current_interface)
      else if startswith line ''inet6 '' \<and> current_interface \<noteq> None then
        (let addr_parts = split_ws line in
         if length addr_parts \<ge> 2
         then parse_lines rest interfaces (map_option (add_address ''ipv6'' (addr_parts ! 1)) current_interface)
         else parse_lines rest interfaces current_interface)
      else parse_lines rest interfaces current_interface)"

definition interface_value :: "interface \<Rightarrow> pyval" where
  "interface_value i =
     PDict [(''name'', PStr (if_name i)), (''state'', PStr (if_state i)),
            (''addresses'',
             PList (map (\<lambda>a. PDict [(''type'', PStr (fst a)), (''address'', PStr (snd a))])
                      (if_addresses i)))]"

definition parse_network_interfaces :: "string \<Rightarrow> pyval" where
  "parse_network_interfaces ip_output =
     PList (map interface_value (parse_lines (split_on (CHR 0x0A) ip_output) [] None))"

definition collect_network :: "host \<Rightarrow> (string \<times> pyval) list \<Rightarrow> unit outcome \<times> (string \<times> pyval) list" where
  "collect_network h info =
     (case subprocess_run h [''ip'', ''addr'', ''show''] of
        Completed returncode out \<Rightarrow>
          if returncode = 0
          then (Return (), dict_set info ''network_interfaces'' (parse_network_interfaces out))
          else (Return (), info)
      | ProcRaises e \<Rightarrow> (Raise (Exception e), info)
      | ProcHangs \<Rightarrow> (Hang, info))"

definition collect_load :: "builtins \<Rightarrow> host \<Rightarrow> (string \<times> pyval) list \<Rightarrow> unit outcome \<times> (string \<times> pyval) list" where
  "collect_load py h info =
     and_then (lift (read_text h ''/proc/loadavg'') info) (\<lambda>content info1.
       let load_avg = split_ws (strip content) in
       and_then
         (lift
            (bind_exc (bind_exc (py_index load_avg 0) (py_float py)) (\<lambda>m1.
             bind_exc (bind_exc (py_index load_avg 1) (py_float py)) (\<lambda>m5.
             bind_exc (bind_exc (py_index load_avg 2) (py_float py)) (\<lambda>m15.
               Inr (PDict [(''1min'', PFloat m1), (''5min'', PFloat m5), (''15min'', PFloat m15)])))))
            info1)
         (\<lambda>load info2. (Return (), dict_set info2 ''load_average'' load)))"

fun collect_temperature :: "builtins \<Rightarrow> host \<Rightarrow> string list \<Rightarrow> (string \<times> pyval) list \<Rightarrow> unit outcome \<times> (string \<times> pyval) list" where
  "collect_temperature py h [] info = (Return (), info)"
| "collect_temperature py h (temp_file # rest) info =
     (if path_exists h temp_file then
        and_then (lift (read_text h temp_file) info) (\<lambda>content info1.
        and_then (lift (bind_exc (py_int py (strip content)) (truediv_1000 py)) info1) (\<lambda>celsius info2.
          (Return (), dict_set info2 ''temperature'' (PFloat celsius))))
      else collect_temperature py h rest info)"

text \<open>The \<^verbatim>\<open>try\<close> block of \<^verbatim>\<open>get_system_info\<close>: each step updates \<open>info\<close> in place.\<close>

definition collect_extended :: "builtins \<Rightarrow> host \<Rightarrow> (string \<times> pyval) list \<Rightarrow> unit outcome \<times> (string \<times> pyval) list" where
  "collect_extended py h info =
     and_then (collect_cpu h info) (\<lambda>_ info1.
     and_then (collect_memory py h info1) (\<lambda>_ info2.
     and_then (collect_disk h info2) (\<lambda>_ info3.
     and_then (collect_network h info3) (\<lambda>_ info4.
     and_then (collect_load py h info4) (\<lambda>_ info5.
       collect_temperature py h
         [''/sys/class/thermal/thermal_zone0/temp'', ''/sys/class/hwmon/hwmon0/temp1_input'']
         info5)))))"

definition get_system_info :: "builtins \<Rightarrow> host \<Rightarrow> string \<Rightarrow> world \<Rightarrow> pyval outcome \<times> world" where
  "get_system_info py h device_id w =
     (let info = [(''device_id'', PStr device_id),
                  (''hostname'', PStr (nodename h)),
                  (''kernel'', PStr (release h)),
                  (''architecture'', PStr (machine h)),
                  (''timestamp'', PStr (utcnow_isoformat h))]
      in case collect_extended py h info of
           (Return _, info') \<Rightarrow> (Return (PDict info'), w)
         | (Raise (Exception e), info') \<Rightarrow>
             (Return (PDict info'), log ERROR (FailedCollectSystemInfo e) w)
         | (Raise CancelledError, info') \<Rightarrow> (Raise CancelledError, w)
         | (Hang, info') \<Rightarrow> (Hang, w))"

subsection \<open>The heartbeat channel: \<^verbatim>\<open>send_heartbeat\<close> and \<^verbatim>\<open>heartbeat_loop\<close>\<close>

text \<open>
  The configuration is read once at start-up: \<open>config section option\<close> is the stored
  string, if any. \<^verbatim>\<open>config.get\<close> raises when the option is missing and no fallback
  is given (interpolation errors are not modelled).
\<close>

definition config_get :: "(string \<Rightarrow> string \<Rightarrow> string option) \<Rightarrow> string \<Rightarrow> string \<Rightarrow> pyexc + string" where
  "config_get config sec opt = (case config sec opt of None \<Rightarrow> Inl NoOptionError | Some v \<Rightarrow> Inr v)"

definition config_get_fallback :: "(string \<Rightarrow> string \<Rightarrow> string option) \<Rightarrow> string \<Rightarrow> string \<Rightarrow> string \<Rightarrow> string" where
  "config_get_fallback config sec opt fallback = (case config sec opt of None \<Rightarrow> fallback | Some v \<Rightarrow> v)"

text \<open>
  What \<^verbatim>\<open>session.post\<close> does: it raises, or a response arrives with its status and
  what \<^verbatim>\<open>await response.json()\<close> gives on it.
\<close>

datatype post_result = PostRaises raised | Response int "raised + pyval"

text \<open>
  What the outside does during one iteration of \<^verbatim>\<open>heartbeat_loop\<close>: the value of
  \<^verbatim>\<open>self.running\<close> at the top, whether \<^verbatim>\<open>self.session\<close> is set, the host, the
  server's answer to the request, and whether a sleep is interrupted (the one in the
  \<^verbatim>\<open>try\<close>, and the one in the handler).
\<close>

record tick =
  running :: bool
  session :: bool
  tick_host :: host
  post :: "string \<Rightarrow> pyval \<Rightarrow> (string \<times> string) list \<Rightarrow> post_result"
  sleep_result :: "raised option"
  sleep_again :: "raised option"

definition lift_raised :: "raised + 'a \<Rightarrow> 's \<Rightarrow> 'a outcome \<times> 's" where
  "lift_raised r s = (case r of Inl e \<Rightarrow> (Raise e, s) | Inr x \<Rightarrow> (Return x, s))"

definition heartbeat_url :: "(string \<Rightarrow> string \<Rightarrow> string option) \<Rightarrow> string \<Rightarrow> string \<Rightarrow> string" where
  "heartbeat_url config device_id server_url =
     server_url @ config_get_fallback config ''server'' ''api_path'' ''/api''
       @ ''/devices/'' @ device_id @ ''/heartbeat''"

definition heartbeat_headers :: "(string \<Rightarrow> string \<Rightarrow> string option) \<Rightarrow> (string \<times> string) list" where
  "heartbeat_headers config =
     (let api_key = config_get_fallback config ''server'' ''api_key'' [];
          headers = [(''Content-Type'', ''application/json''), (''User-Agent'', ''KioskAgent/1.0'')]
      in if api_key \<noteq> [] then headers @ [(''Authorization'', ''Bearer '' @ api_key)] else headers)"

text \<open>The inner \<^verbatim>\<open>try\<close> of \<^verbatim>\<open>send_heartbeat\<close>, on a response with status 200.\<close>

definition process_response :: "(string list \<Rightarrow> proc_result) \<Rightarrow> raised + pyval \<Rightarrow> world \<Rightarrow> unit outcome \<times> world" where
  "process_response run body w =
     except_Exception
       (and_then (lift_raised body w) (\<lambda>response_data w1.
        and_then (lift (py_contains response_data ''commands'') w1) (\<lambda>present w2.
          if present
          then and_then (lift (py_subscript response_data ''commands'') w2) (process_commands run)
          else (Return (), w2))))
       (\<lambda>e w'. (Return (), log ERROR (FailedProcessServerResponse e) w'))"

definition send_heartbeat :: "(string \<Rightarrow> string \<Rightarrow> string option) \<Rightarrow> string \<Rightarrow> builtins \<Rightarrow> tick \<Rightarrow> world \<Rightarrow> unit outcome \<times> world" where
  "send_heartbeat config device_id py t w =
     (if \<not> session t then (Return (), w)
      else
        except_Exception
          (and_then (lift (config_get config ''server'' ''url'') w) (\<lambda>server_url w0.
           and_then (get_system_info py (tick_host t) device_id w0) (\<lambda>system_info w1.
             let url = heartbeat_url config device_id server_url;
                 headers = heartbeat_headers config
             in case post t url system_info headers of
                  PostRaises e \<Rightarrow> (Raise e, emit (Post url system_info headers) w1)
                | Response status body \<Rightarrow>
                    if status = 200
                    then process_response (subprocess_run (tick_host t)) body
                           (log DEBUG HeartbeatSent (emit (Post url system_info headers) w1))
                    else (Return (),
                          log ERROR (HeartbeatFailedHTTP status) (emit (Post url system_info headers) w1)))))
          (\<lambda>e w'. (Return (), log ERROR (FailedSendHeartbeat e) w')))"

definition sleep :: "int \<Rightarrow> raised option \<Rightarrow> world \<Rightarrow> unit outcome \<times> world" where
  "sleep seconds interrupted w =
     (case interrupted of None \<Rightarrow> (Return (), emit (Sleep seconds) w)
                        | Some e \<Rightarrow> (Raise e, emit (Sleep seconds) w))"

text \<open>
  \<^verbatim>\<open>heartbeat_loop\<close> over the iterations the outside drives. \<open>None\<close>: every given
  iteration ran and the loop is still running; \<open>Some r\<close>: the coroutine ended with \<open>r\<close>.
\<close>

fun heartbeat_loop :: "(string \<Rightarrow> string \<Rightarrow> string option) \<Rightarrow> string \<Rightarrow> builtins \<Rightarrow> int \<Rightarrow> tick list \<Rightarrow> world \<Rightarrow> unit outcome option \<times> world" where
  "heartbeat_loop config device_id py interval [] w = (None, w)"
| "heartbeat_loop config device_id py interval (t # ts) w =
     (if \<not> running t then (Some (Return ()), w)
      else
        (case and_then (send_heartbeat config device_id py t w) (\<lambda>_. sleep interval (sleep_result t)) of
           (Return _, w1) \<Rightarrow> heartbeat_loop config device_id py interval ts w1
         | (Raise CancelledError, w1) \<Rightarrow> (Some (Return ()), w1)
         | (Raise (Exception e), w1) \<Rightarrow>
             (case sleep interval (sleep_again t) (log ERROR (HeartbeatLoopError e) w1) of
                (Return _, w2) \<Rightarrow> heartbeat_loop config device_id py interval ts w2
              | (Raise e', w2) \<Rightarrow> (Some (Raise e'), w2)
              | (Hang, w2) \<Rightarrow> (Some Hang, w2))
         | (Hang, w1) \<Rightarrow> (Some Hang, w1)))"

subsection \<open>The command stream: \<^verbatim>\<open>connect_websocket\<close>, \<^verbatim>\<open>handle_websocket_message\<close>, \<^verbatim>\<open>websocket_loop\<close>\<close>

text \<open>
  One inbound message, and what the outside does while it is handled: the behaviour of
  \<^verbatim>\<open>subprocess.run\<close> and of \<^verbatim>\<open>websocket.send\<close>.
\<close>

record frame =
  message :: string
  frame_run :: "string list \<Rightarrow> proc_result"
  send_result :: "raised option"

text \<open>
  How the iteration over the connection ends after its last message: the peer closes
  normally, the iteration raises, or nothing more ever arrives.
\<close>

datatype stream_end = ClosedOK | RecvRaises raised | Silent

text \<open>
  One iteration of \<^verbatim>\<open>websocket_loop\<close>: the value of \<^verbatim>\<open>self.running\<close> at the top,
  what \<^verbatim>\<open>websockets.connect\<close> does for a url and headers (\<open>None\<close>: it connects), the
  handle of the connection, the messages it delivers and how it ends, and whether the
  sleep of the loop's handler is interrupted.
\<close>

record attempt =
  ws_running :: bool
  connect_result :: "string \<Rightarrow> (string \<times> string) list \<Rightarrow> raised option"
  conn :: nat
  inbound :: "frame list"
  ending :: stream_end
  cooldown_result :: "raised option"

text \<open>\<^verbatim>\<open>json.dumps({'type': 'pong'})\<close>.\<close>

definition pong :: string where
  \<open>pong = ''{"type": "pong"}''\<close>

definition handle_websocket_message :: "frame \<Rightarrow> pyval \<Rightarrow> world \<Rightarrow> unit outcome \<times> world" where
  "handle_websocket_message f data w =
     and_then (lift (py_get data ''type'' PNone) w) (\<lambda>message_type w0.
       if message_type = PStr ''command'' then
         and_then (lift (py_get data ''data'' (PDict [])) w0) (\<lambda>d.
           process_commands (frame_run f) (PList [d]))
       else if message_type = PStr ''ping'' then
         (case websocket w0 of
            None \<Rightarrow> (Raise (Exception AttributeError), w0)
          | Some c \<Rightarrow>
              (case send_result f of
                 None \<Rightarrow> (Return (), emit (Send c pong) w0)
               | Some e \<Rightarrow> (Raise e, emit (Send c pong) w0)))
       else (Return (), log WARNING (UnknownWebSocketMessageType message_type) w0))"

text \<open>The body of \<^verbatim>\<open>async for message in websocket\<close> for one message.\<close>

definition on_message :: "builtins \<Rightarrow> frame \<Rightarrow> world \<Rightarrow> unit outcome \<times> world" where
  "on_message py f w =
     except_Exception
       (and_then (lift (json_loads py (message f)) w) (handle_websocket_message f))
       (\<lambda>e w'. (Return (), log ERROR (FailedProcessWebSocketMessage e) w'))"

fun receive :: "builtins \<Rightarrow> frame list \<Rightarrow> stream_end \<Rightarrow> world \<Rightarrow> unit outcome \<times> world" where
  "receive py [] fin w =
     (case fin of
        ClosedOK \<Rightarrow> (Return (), w)
      | RecvRaises e \<Rightarrow> (Raise e, w)
      | Silent \<Rightarrow> (Hang, w))"
| "receive py (f # fs) fin w = and_then (on_message py f w) (\<lambda>_. receive py fs fin)"

definition websocket_url :: "string \<Rightarrow> string \<Rightarrow> string" where
  "websocket_url device_id server_url =
     py_replace ''https://'' ''wss://'' (py_replace ''http://'' ''ws://'' server_url)
       @ ''/ws/devices/'' @ device_id"

definition websocket_headers :: "(string \<Rightarrow> string \<Rightarrow> string option) \<Rightarrow> (string \<times> string) list" where
  "websocket_headers config =
     (let api_key = config_get_fallback config ''server'' ''api_key'' []
      in if api_key \<noteq> [] then [(''Authorization'', ''Bearer '' @ api_key)] else [])"

text \<open>
  The \<^verbatim>\<open>async with\<close> block: the connection is closed when the block is left, by a
  return or by an exception.
\<close>

definition connected :: "builtins \<Rightarrow> attempt \<Rightarrow> world \<Rightarrow> unit outcome \<times> world" where
  "connected py a w =
     (case receive py (inbound a) (ending a) (log INFO WebSocketConnected (w\<lparr>websocket := Some (conn a)\<rparr>)) of
        (Hang, w1) \<Rightarrow> (Hang, w1)
      | (r, w1) \<Rightarrow> (r, emit (Close (conn a)) w1))"

definition connect_websocket :: "(string \<Rightarrow> string \<Rightarrow> string option) \<Rightarrow> string \<Rightarrow> builtins \<Rightarrow> attempt \<Rightarrow> world \<Rightarrow> unit outcome \<times> world" where
  "connect_websocket config device_id py a w =
     except_Exception
       (and_then (lift (config_get config ''server'' ''url'') w) (\<lambda>server_url w0.
          let ws_url = websocket_url device_id server_url;
              headers = websocket_headers config
          in case connect_result a ws_url headers of
               Some e \<Rightarrow> (Raise e, emit (Connect ws_url headers) w0)
             | None \<Rightarrow> connected py a (emit (Connect ws_url headers) w0)))
       (\<lambda>e w'. (Return (), log ERROR (WebSocketConnectionFailed e) w'))"

text \<open>
  \<^verbatim>\<open>websocket_loop\<close> over the iterations the outside drives; the result reads as for
  \<open>heartbeat_loop\<close>.
\<close>

fun websocket_loop :: "(string \<Rightarrow> string \<Rightarrow> string option) \<Rightarrow> string \<Rightarrow> builtins \<Rightarrow> attempt list \<Rightarrow> world \<Rightarrow> unit outcome option \<times> world" where
  "websocket_loop config device_id py [] w = (None, w)"
| "websocket_loop config device_id py (a # as) w =
     (if \<not> ws_running a then (Some (Return ()), w)
      else
        (case connect_websocket config device_id py a w of
           (Return _, w1) \<Rightarrow> websocket_loop config device_id py as w1
         | (Raise CancelledError, w1) \<Rightarrow> (Some (Return ()), w1)
         | (Raise (Exception e), w1) \<Rightarrow>
             (case sleep 30 (cooldown_result a) (log ERROR (WebSocketLoopError e) w1) of
                (Return _, w2) \<Rightarrow> websocket_loop config device_id py as w2
              | (Raise e', w2) \<Rightarrow> (Some (Raise e'), w2)
              | (Hang, w2) \<Rightarrow> (Some Hang, w2))
         | (Hang, w1) \<Rightarrow> (Some Hang, w1)))"

subsection \<open>Reading a trace\<close>

text \<open>The executor calls of a trace, in the order they were made.\<close>

fun execs :: "event list \<Rightarrow> action list" where
  "execs [] = []"
| "execs (Exec a # evs) = a # execs evs"
| "execs (_ # evs) = execs evs"

text \<open>The connections a trace closes, in order.\<close>

fun closes :: "event list \<Rightarrow> nat list" where
  "closes [] = []"
| "closes (Close c # evs) = c # closes evs"
| "closes (_ # evs) = closes evs"

text \<open>The stream replies of a trace, in order.\<close>

fun sends :: "event list \<Rightarrow> (nat \<times> string) list" where
  "sends [] = []"
| "sends (Send c s # evs) = (c, s) # sends evs"
| "sends (_ # evs) = sends evs"

text \<open>The sleeps of a trace, in order.\<close>

fun sleeps :: "event list \<Rightarrow> int list" where
  "sleeps [] = []"
| "sleeps (Sleep n # evs) = n # sleeps evs"
| "sleeps (_ # evs) = sleeps evs"

text \<open>
  What \<^verbatim>\<open>command.get('data', {})\<close> and \<^verbatim>\<open>command.get('type')\<close> give on a mapping:
  the payload and the kind of an envelope.
\<close>

definition payload :: "(string \<times> pyval) list \<Rightarrow> pyval" where
  "payload kvs = (case map_of kvs ''data'' of None \<Rightarrow> PDict [] | Some d \<Rightarrow> d)"

definition kind :: "(string \<times> pyval) list \<Rightarrow> pyval" where
  "kind kvs = (case map_of kvs ''type'' of None \<Rightarrow> PNone | Some k \<Rightarrow> k)"

text \<open>
  The routing table in the specification's words, to compare the code with: the
  recognized kinds are exactly \<^verbatim>\<open>restart\<close>, \<^verbatim>\<open>update\<close>, \<^verbatim>\<open>install_app\<close>,
  \<^verbatim>\<open>uninstall_app\<close> and \<^verbatim>\<open>configure\<close>; an envelope is a mapping and is routed by
  its kind to the executor action of that name, which gets the payload (\<^verbatim>\<open>restart\<close>
  takes none); anything else is routed to no action.
\<close>

definition spec_recognized :: "pyval \<Rightarrow> bool" where
  "spec_recognized k =
     (k = PStr ''restart'' \<or> k = PStr ''update'' \<or> k = PStr ''install_app''
      \<or> k = PStr ''uninstall_app'' \<or> k = PStr ''configure'')"

definition spec_route :: "pyval \<Rightarrow> action option" where
  "spec_route command =
     (case command of
        PDict kvs \<Rightarrow>
          if kind kvs = PStr ''restart'' then Some Restart_system
          else if kind kvs = PStr ''update'' then Some (Update_system (payload kvs))
          else if kind kvs = PStr ''install_app'' then Some (Install_application (payload kvs))
          else if kind kvs = PStr ''uninstall_app'' then Some (Uninstall_application (payload kvs))
          else if kind kvs = PStr ''configure'' then Some (Configure_system (payload kvs))
          else None
      | _ \<Rightarrow> None)"

definition is_mapping :: "pyval \<Rightarrow> bool" where
  "is_mapping v = (case v of PDict _ \<Rightarrow> True | _ \<Rightarrow> False)"

text \<open>Predicates the proofs use: a field of a dict has a given value; an outcome is not a
  cancellation; an outcome is a return or an \<^verbatim>\<open>Exception\<close>.\<close>

definition keeps :: "string \<Rightarrow> pyval \<Rightarrow> (string \<times> pyval) list \<Rightarrow> bool" where
  "keeps k v info = (map_of info k = Some v)"

definition uncancelled :: "'a outcome \<Rightarrow> bool" where
  "uncancelled out = (out \<noteq> Raise CancelledError)"

definition plain :: "'a outcome \<Rightarrow> bool" where
  "plain out = (out \<noteq> Raise CancelledError \<and> out \<noteq> Hang)"

text \<open>Two worlds with the same connection state: the same closes, replies and handle.\<close>

definition same_stream :: "world \<Rightarrow> world \<Rightarrow> bool" where
  "same_stream w w' =
     (closes (trace w') = closes (trace w) \<and> sends (trace w') = sends (trace w)
      \<and> websocket w' = websocket w)"

text \<open>A later world whose trace starts with the trace of an earlier one.\<close>

definition grows :: "world \<Rightarrow> world \<Rightarrow> bool" where
  "grows w w' = (\<exists>evs. trace w' = trace w @ evs)"



text \<open>How \<^verbatim>\<open>async for\<close> ends once the messages are used up.\<close>

definition end_outcome :: "stream_end \<Rightarrow> unit outcome" where
  "end_outcome fin = (case fin of ClosedOK \<Rightarrow> Return () | RecvRaises e \<Rightarrow> Raise e | Silent \<Rightarrow> Hang)"

subsection \<open>Concrete surroundings\<close>

text \<open>
  A host on which no extended fact can be collected (every read fails, the first one
  already), library functions that reject every number, and a configuration that sets the
  server url only.
\<close>

definition bare_host :: host where
  "bare_host =
     \<lparr>nodename = ''kiosk'', release = ''6.1.0'', machine = ''x86_64'',
      utcnow_isoformat = ''2024-01-01T00:00:00+00:00'',
      read_text = (\<lambda>path. Inl OSError),
      path_exists = (\<lambda>path. False),
      disk_usage = Inl OSError,
      subprocess_run = (\<lambda>argv. Completed 0 [])\<rparr>"

text \<open>The base fields of a snapshot on \<open>bare_host\<close> for the device \<^verbatim>\<open>kiosk-1\<close>.\<close>

definition bare_info :: pyval where
  "bare_info =
     PDict [(''device_id'', PStr ''kiosk-1''), (''hostname'', PStr ''kiosk''),
            (''kernel'', PStr ''6.1.0''), (''architecture'', PStr ''x86_64''),
            (''timestamp'', PStr ''2024-01-01T00:00:00+00:00'')]"

text \<open>Three stream messages and their values under \<^verbatim>\<open>json.loads\<close>; every other text is rejected.\<close>

definition ping_text :: string where
  \<open>ping_text = ''{"type": "ping"}''\<close>

definition restart_text :: string where
  \<open>restart_text = ''{"type": "command", "data": {"type": "restart"}}''\<close>

definition bad_command_text :: string where
  \<open>bad_command_text = ''{"type": "command", "data": 7}''\<close>

definition example_builtins :: builtins where
  "example_builtins =
     \<lparr>py_int = (\<lambda>s. Inl ValueError),
      py_float = (\<lambda>s. Inl ValueError),
      truediv_1000 = (\<lambda>n. Inl OverflowError),
      json_loads = (\<lambda>s.
        if s = ping_text then Inr (PDict [(''type'', PStr ''ping'')])
        else if s = restart_text
          then Inr (PDict [(''type'', PStr ''command''), (''data'', PDict [(''type'', PStr ''restart'')])])
        else if s = bad_command_text
          then Inr (PDict [(''type'', PStr ''command''), (''data'', PInt 7)])
        else if s = ''[1]'' then Inr (PList [PInt 1])
        else Inl JSONDecodeError)\<rparr>"

definition example_config :: "string \<Rightarrow> string \<Rightarrow> string option" where
  "example_config sec opt =
     (if sec = ''server'' \<and> opt = ''url'' then Some ''http://kiosk.example'' else None)"

text \<open>A tick on \<open>bare_host\<close> in which the server answers \<open>r\<close> and no sleep is interrupted.\<close>

definition answering_tick :: "post_result \<Rightarrow> tick" where
  "answering_tick r =
     \<lparr>running = True, session = True, tick_host = bare_host,
      post = (\<lambda>url body headers. r), sleep_result = None, sleep_again = None\<rparr>"

definition fresh :: world where
  "fresh = \<lparr>trace = [], websocket = None\<rparr>"

text \<open>
  A message during whose handling the reboot command exits at once and the reply goes
  out; a message during whose handling the reboot command never exits; a connection
  attempt that is refused; the world in which connection 1 is open.
\<close>

definition quiet_frame :: "string \<Rightarrow> frame" where
  "quiet_frame s = \<lparr>message = s, frame_run = (\<lambda>argv. Completed 0 []), send_result = None\<rparr>"

definition hanging_frame :: "string \<Rightarrow> frame" where
  "hanging_frame s = \<lparr>message = s, frame_run = (\<lambda>argv. ProcHangs), send_result = None\<rparr>"

definition refused :: attempt where
  "refused =
     \<lparr>ws_running = True, connect_result = (\<lambda>url headers. Some (Exception OSError)),
      conn = 0, inbound = [], ending = ClosedOK, cooldown_result = None\<rparr>"

definition on_connection_1 :: world where
  "on_connection_1 = \<lparr>trace = [], websocket = Some 1\<rparr>"

section \<open>Properties of the model\<close>

subsection \<open>Sequencing, traces and one iteration of the dispatcher\<close>

lemma and_then_simps [simp]:
  "and_then (Return x, s) f = f x s"
  "and_then (Raise e, s) f = (Raise e, s)"
  "and_then (Hang, s) f = (Hang, s)"
  by (simp_all add: and_then_def)

lemma except_Exception_simps [simp]:
  "except_Exception (Return x, s) h = (Return x, s)"
  "except_Exception (Raise (Exception e), s) h = h e s"
  "except_Exception (Raise CancelledError, s) h = (Raise CancelledError, s)"
  "except_Exception (Hang, s) h = (Hang, s)"
  by (simp_all add: except_Exception_def)

lemma lift_simps [simp]:
  "lift (Inl e) s = (Raise (Exception e), s)"
  "lift (Inr x) s = (Return x, s)"
  by (simp_all add: lift_def)

lemma trace_emit [simp]: "trace (emit ev w) = trace w @ [ev]"
  by (simp add: emit_def)

lemma websocket_emit [simp]: "websocket (emit ev w) = websocket w"
  by (simp add: emit_def)

lemma trace_log [simp]: "trace (log l m w) = trace w @ [Log l m]"
  by (simp add: log_def)

lemma websocket_log [simp]: "websocket (log l m w) = websocket w"
  by (simp add: log_def)

lemma execs_append [simp]: "execs (xs @ ys) = execs xs @ execs ys"
  by (induction xs rule: execs.induct) simp_all

lemma closes_append [simp]: "closes (xs @ ys) = closes xs @ closes ys"
  by (induction xs rule: closes.induct) simp_all

lemma sends_append [simp]: "sends (xs @ ys) = sends xs @ sends ys"
  by (induction xs rule: sends.induct) simp_all

lemma sleeps_append [simp]: "sleeps (xs @ ys) = sleeps xs @ sleeps ys"
  by (induction xs rule: sleeps.induct) simp_all

text \<open>One iteration of the loop of \<^verbatim>\<open>process_commands\<close>.\<close>

lemma py_get_mapping [simp]:
  "py_get (PDict kvs) ''type'' PNone = Inr (kind kvs)"
  "py_get (PDict kvs) ''data'' (PDict []) = Inr (payload kvs)"
  by (simp_all add: py_get_def kind_def payload_def split: option.splits)

lemma py_get_not_mapping: "\<not> is_mapping v \<Longrightarrow> py_get v k d = Inl AttributeError"
  by (cases v) (simp_all add: py_get_def is_mapping_def)

lemma step_not_mapping:
  "\<not> is_mapping c \<Longrightarrow>
   except_Exception (dispatch_try run c w) (dispatch_except c) = (Raise (Exception AttributeError), w)"
  by (simp add: dispatch_try_def dispatch_except_def py_get_not_mapping)

lemma dispatch_except_mapping [simp]:
  "dispatch_except (PDict kvs) e w = (Return (), log ERROR (FailedProcessCommand (kind kvs) e) w)"
  by (simp add: dispatch_except_def)

lemma execs_restart_system:
  "execs (trace (snd (restart_system run w))) = execs (trace w) @ [Restart_system]"
  by (simp add: restart_system_def Let_def split: proc_result.splits)

lemma execs_update_system:
  "execs (trace (snd (update_system d w))) = execs (trace w) @ [Update_system d]"
  by (simp add: update_system_def)

lemma execs_install_application:
  "execs (trace (snd (install_application d w))) = execs (trace w) @ [Install_application d]"
  by (cases "py_get d ''name'' PNone"; cases "py_get d ''url'' PNone")
     (simp_all add: install_application_def)

lemma execs_uninstall_application:
  "execs (trace (snd (uninstall_application d w))) = execs (trace w) @ [Uninstall_application d]"
  by (cases "py_get d ''name'' PNone") (simp_all add: uninstall_application_def)

lemma execs_configure_system:
  "execs (trace (snd (configure_system d w))) = execs (trace w) @ [Configure_system d]"
  by (simp add: configure_system_def)

lemma execs_dispatch_try:
  "execs (trace (snd (dispatch_try run (PDict kvs) w)))
   = execs (trace w) @ (case spec_route (PDict kvs) of None \<Rightarrow> [] | Some a \<Rightarrow> [a])"
  by (simp add: dispatch_try_def spec_route_def Let_def execs_restart_system execs_update_system
      execs_install_application execs_uninstall_application execs_configure_system)

lemma execs_handler:
  "execs (trace (snd (except_Exception r (dispatch_except (PDict kvs))))) = execs (trace (snd r))"
proof (cases r)
  case (Pair out w1)
  then show ?thesis
  proof (cases out)
    case (Raise e)
    with Pair show ?thesis by (cases e) simp_all
  qed simp_all
qed

lemma step_execs:
  "execs (trace (snd (except_Exception (dispatch_try run c w) (dispatch_except c))))
   = execs (trace w) @ (case spec_route c of None \<Rightarrow> [] | Some a \<Rightarrow> [a])"
proof (cases "is_mapping c")
  case False
  then have "spec_route c = None" by (cases c) (simp_all add: spec_route_def is_mapping_def)
  with False show ?thesis by (simp add: step_not_mapping)
next
  case True
  then obtain kvs where c: "c = PDict kvs" by (cases c) (simp_all add: is_mapping_def)
  show ?thesis unfolding c by (simp add: execs_handler execs_dispatch_try)
qed

text \<open>On a mapping the iteration never raises.\<close>

lemma no_cancel_dispatch_try: "fst (dispatch_try run c w) \<noteq> Raise CancelledError"
  by (cases "py_get c ''type'' PNone"; cases "py_get c ''data'' (PDict [])")
     (auto simp: dispatch_try_def restart_system_def update_system_def install_application_def
        uninstall_application_def configure_system_def Let_def lift_def and_then_def
        split: proc_result.splits sum.splits)

lemma hang_dispatch_try:
  "fst (dispatch_try run c w) = Hang \<Longrightarrow> run [''sudo'', ''systemctl'', ''reboot''] = ProcHangs"
  by (cases "py_get c ''type'' PNone"; cases "py_get c ''data'' (PDict [])")
     (auto simp: dispatch_try_def restart_system_def update_system_def install_application_def
        uninstall_application_def configure_system_def Let_def lift_def and_then_def
        split: proc_result.splits sum.splits if_splits)

lemma step_mapping_returns:
  assumes "run [''sudo'', ''systemctl'', ''reboot''] \<noteq> ProcHangs"
  shows "fst (except_Exception (dispatch_try run (PDict kvs) w) (dispatch_except (PDict kvs))) = Return ()"
proof (cases "dispatch_try run (PDict kvs) w")
  case (Pair out w1)
  show ?thesis
  proof (cases out)
    case (Return u)
    with Pair show ?thesis by simp
  next
    case (Raise e)
    with Pair no_cancel_dispatch_try [of run "PDict kvs" w] show ?thesis by (cases e) simp_all
  next
    case Hang
    with Pair hang_dispatch_try [of run "PDict kvs" w] assms show ?thesis by simp
  qed
qed

lemma for_command_execs:
  "\<exists>k. execs (trace (snd (for_command run cs w))) = execs (trace w) @ List.map_filter spec_route (take k cs)"
proof (induction cs arbitrary: w)
  case Nil
  show ?case by (simp add: List.map_filter_simps)
next
  case (Cons c cs)
  obtain out w1 where step: "except_Exception (dispatch_try run c w) (dispatch_except c) = (out, w1)"
    by (cases "except_Exception (dispatch_try run c w) (dispatch_except c)")
  have w1: "execs (trace w1) = execs (trace w) @ (case spec_route c of None \<Rightarrow> [] | Some a \<Rightarrow> [a])"
    using step_execs [of run c w] step by simp
  show ?case
  proof (cases out)
    case (Return u)
    from Cons.IH [of w1] obtain k where
      "execs (trace (snd (for_command run cs w1))) = execs (trace w1) @ List.map_filter spec_route (take k cs)" ..
    with step Return w1
    have "execs (trace (snd (for_command run (c # cs) w)))
          = execs (trace w) @ List.map_filter spec_route (take (Suc k) (c # cs))"
      by (simp add: List.map_filter_simps split: option.splits)
    then show ?thesis ..
  next
    case (Raise e)
    with step w1
    have "execs (trace (snd (for_command run (c # cs) w)))
          = execs (trace w) @ List.map_filter spec_route (take (Suc 0) (c # cs))"
      by (simp add: List.map_filter_simps split: option.splits)
    then show ?thesis ..
  next
    case Hang
    with step w1
    have "execs (trace (snd (for_command run (c # cs) w)))
          = execs (trace w) @ List.map_filter spec_route (take (Suc 0) (c # cs))"
      by (simp add: List.map_filter_simps split: option.splits)
    then show ?thesis ..
  qed
qed

lemma for_command_mappings:
  assumes "run [''sudo'', ''systemctl'', ''reboot''] \<noteq> ProcHangs" and "list_all is_mapping cs"
  shows "fst (for_command run cs w) = Return ()
         \<and> execs (trace (snd (for_command run cs w))) = execs (trace w) @ List.map_filter spec_route cs"
  using assms(2)
proof (induction cs arbitrary: w)
  case Nil
  show ?case by (simp add: List.map_filter_simps)
next
  case (Cons c cs)
  then obtain kvs where c: "c = PDict kvs" by (cases c) (simp_all add: is_mapping_def)
  obtain out w1 where step: "except_Exception (dispatch_try run c w) (dispatch_except c) = (out, w1)"
    by (cases "except_Exception (dispatch_try run c w) (dispatch_except c)")
  have out: "out = Return ()"
    using step_mapping_returns [of run kvs w] assms(1) step c by simp
  have w1: "execs (trace w1) = execs (trace w) @ (case spec_route c of None \<Rightarrow> [] | Some a \<Rightarrow> [a])"
    using step_execs [of run c w] step by simp
  from Cons have "fst (for_command run cs w1) = Return ()
         \<and> execs (trace (snd (for_command run cs w1))) = execs (trace w1) @ List.map_filter spec_route cs"
    by simp
  with step out w1 show ?case
    by (simp add: List.map_filter_simps split: option.splits)
qed

subsection \<open>The snapshot keeps its base fields\<close>

lemma map_of_dict_set: "map_of (dict_set kvs k v) k' = (if k' = k then Some v else map_of kvs k')"
  by (induction kvs k v rule: dict_set.induct) auto

lemma lift_keeps [simp]: "snd (lift r s) = s"
  by (cases r) simp_all

text \<open>A field that every step of a sequence keeps is kept by the sequence.\<close>

lemma and_then_keeps:
  assumes "keeps k v (snd m)" and "\<And>x s. keeps k v s \<Longrightarrow> keeps k v (snd (f x s))"
  shows "keeps k v (snd (and_then m f))"
proof (cases m)
  case (Pair out s)
  with assms show ?thesis by (cases out) simp_all
qed

lemma keeps_dict_set: "k' \<noteq> k \<Longrightarrow> keeps k v info \<Longrightarrow> keeps k v (dict_set info k' v')"
  by (simp add: keeps_def map_of_dict_set)

lemma collect_cpu_keeps:
  assumes "k \<noteq> ''cpu_model''" and "keeps k v info"
  shows "keeps k v (snd (collect_cpu h info))"
  unfolding collect_cpu_def
  by (rule and_then_keeps)
     (use assms in \<open>auto simp: Let_def keeps_dict_set split: option.splits intro!: and_then_keeps\<close>)

lemma meminfo_lines_keeps:
  assumes "k \<noteq> ''memory_total''" and "k \<noteq> ''memory_available''"
  shows "keeps k v info \<Longrightarrow> keeps k v (snd (meminfo_lines py ls info))"
proof (induction ls arbitrary: info)
  case Nil
  then show ?case by simp
next
  case (Cons line rest)
  show ?case
    using Cons.prems assms
    by (auto intro!: and_then_keeps Cons.IH keeps_dict_set)
qed

lemma collect_memory_keeps:
  assumes "k \<noteq> ''memory_total''" and "k \<noteq> ''memory_available''" and "keeps k v info"
  shows "keeps k v (snd (collect_memory py h info))"
  unfolding collect_memory_def
  by (rule and_then_keeps) (use assms in \<open>auto intro!: meminfo_lines_keeps\<close>)

lemma collect_disk_keeps:
  assumes "k \<noteq> ''disk_total''" and "k \<noteq> ''disk_free''" and "k \<noteq> ''disk_used''" and "keeps k v info"
  shows "keeps k v (snd (collect_disk h info))"
  unfolding collect_disk_def
  by (rule and_then_keeps) (use assms in \<open>auto intro!: keeps_dict_set\<close>)

lemma collect_network_keeps:
  assumes "k \<noteq> ''network_interfaces''" and "keeps k v info"
  shows "keeps k v (snd (collect_network h info))"
  using assms by (auto simp: collect_network_def keeps_dict_set split: proc_result.splits)

lemma collect_load_keeps:
  assumes "k \<noteq> ''load_average''" and "keeps k v info"
  shows "keeps k v (snd (collect_load py h info))"
  unfolding collect_load_def
  by (rule and_then_keeps)
     (use assms in \<open>auto simp: Let_def intro!: and_then_keeps keeps_dict_set\<close>)

lemma collect_temperature_keeps:
  assumes "k \<noteq> ''temperature''"
  shows "keeps k v info \<Longrightarrow> keeps k v (snd (collect_temperature py h fs info))"
proof (induction fs arbitrary: info)
  case Nil
  then show ?case by simp
next
  case (Cons temp_file rest)
  show ?case
    using Cons.prems assms
    by (auto intro!: and_then_keeps Cons.IH keeps_dict_set)
qed

lemma collect_extended_keeps:
  assumes "k \<in> {''device_id'', ''hostname'', ''kernel'', ''architecture'', ''timestamp''}"
      and "keeps k v info"
  shows "keeps k v (snd (collect_extended py h info))"
  unfolding collect_extended_def
  using assms
  by (intro and_then_keeps collect_cpu_keeps collect_memory_keeps collect_disk_keeps
        collect_network_keeps collect_load_keeps collect_temperature_keeps) auto

text \<open>
  The steps are synchronous: none is cancelled, and only the child process can hang.

\<close>

lemma plain_simps [simp]:
  "plain (Return x)" "plain (Raise (Exception e))" "\<not> plain Hang" "\<not> plain (Raise CancelledError)"
  by (simp_all add: plain_def)

lemma uncancelled_simps [simp]:
  "uncancelled (Return x)" "uncancelled (Raise (Exception e))" "uncancelled Hang"
  "\<not> uncancelled (Raise CancelledError)"
  by (simp_all add: uncancelled_def)

lemma plain_uncancelled: "plain out \<Longrightarrow> uncancelled out"
  by (simp add: plain_def uncancelled_def)

lemma plain_lift: "plain (fst (lift r s))"
  by (cases r) simp_all

lemma plain_and_then:
  assumes "plain (fst m)" and "\<And>x s. plain (fst (f x s))"
  shows "plain (fst (and_then m f))"
proof (cases m)
  case (Pair out s)
  with assms show ?thesis by (cases out) (simp_all add: plain_def)
qed

lemma uncancelled_and_then:
  assumes "uncancelled (fst m)" and "\<And>x s. uncancelled (fst (f x s))"
  shows "uncancelled (fst (and_then m f))"
proof (cases m)
  case (Pair out s)
  with assms show ?thesis by (cases out) (simp_all add: uncancelled_def)
qed

lemma plain_collect_cpu: "plain (fst (collect_cpu h info))"
  unfolding collect_cpu_def
  by (auto simp: Let_def split: option.splits intro!: plain_and_then plain_lift)

lemma plain_meminfo_lines: "plain (fst (meminfo_lines py ls info))"
  by (induction ls arbitrary: info) (auto intro!: plain_and_then plain_lift)

lemma plain_collect_memory: "plain (fst (collect_memory py h info))"
  unfolding collect_memory_def
  by (auto intro!: plain_and_then plain_lift plain_meminfo_lines)

lemma plain_collect_disk: "plain (fst (collect_disk h info))"
  unfolding collect_disk_def
  by (auto intro!: plain_and_then plain_lift)

lemma uncancelled_collect_network: "uncancelled (fst (collect_network h info))"
  by (simp add: collect_network_def split: proc_result.splits)

lemma plain_collect_network:
  "subprocess_run h [''ip'', ''addr'', ''show''] \<noteq> ProcHangs \<Longrightarrow> plain (fst (collect_network h info))"
  by (simp add: collect_network_def split: proc_result.splits)

lemma plain_collect_load: "plain (fst (collect_load py h info))"
  unfolding collect_load_def
  by (auto simp: Let_def intro!: plain_and_then plain_lift)

lemma plain_collect_temperature: "plain (fst (collect_temperature py h fs info))"
  by (induction fs arbitrary: info) (auto intro!: plain_and_then plain_lift)

lemma uncancelled_collect_extended: "uncancelled (fst (collect_extended py h info))"
  unfolding collect_extended_def
  by (intro uncancelled_and_then uncancelled_collect_network plain_uncancelled
        plain_collect_cpu plain_collect_memory plain_collect_disk plain_collect_load
        plain_collect_temperature)

lemma plain_collect_extended:
  "subprocess_run h [''ip'', ''addr'', ''show''] \<noteq> ProcHangs \<Longrightarrow> plain (fst (collect_extended py h info))"
  unfolding collect_extended_def
  by (intro plain_and_then plain_collect_network
        plain_collect_cpu plain_collect_memory plain_collect_disk plain_collect_load
        plain_collect_temperature)

text \<open>What the snapshot does to the world: nothing, or one error line.\<close>

lemma get_system_info_world:
  "snd (get_system_info py h device_id w) = w
   \<or> (\<exists>e. snd (get_system_info py h device_id w) = log ERROR (FailedCollectSystemInfo e) w)"
  by (auto simp: get_system_info_def Let_def split: prod.splits outcome.splits raised.splits)

lemma get_system_info_not_raise: "fst (get_system_info py h device_id w) \<noteq> Raise e"
proof -
  define info0 where "info0 = [(''device_id'', PStr device_id),
                  (''hostname'', PStr (nodename h)),
                  (''kernel'', PStr (release h)),
                  (''architecture'', PStr (machine h)),
                  (''timestamp'', PStr (utcnow_isoformat h))]"
  obtain out info where r: "collect_extended py h info0 = (out, info)"
    by (cases "collect_extended py h info0")
  have "uncancelled out"
    using uncancelled_collect_extended [of py h info0] r by simp
  then show ?thesis
    using r unfolding get_system_info_def info0_def [symmetric] Let_def
    by (cases out) (auto split: raised.splits)
qed

lemma get_system_info_returns:
  assumes "subprocess_run h [''ip'', ''addr'', ''show''] \<noteq> ProcHangs"
  shows "\<exists>info. fst (get_system_info py h device_id w) = Return (PDict info)
           \<and> keeps ''device_id'' (PStr device_id) info
           \<and> keeps ''hostname'' (PStr (nodename h)) info
           \<and> keeps ''kernel'' (PStr (release h)) info
           \<and> keeps ''architecture'' (PStr (machine h)) info
           \<and> keeps ''timestamp'' (PStr (utcnow_isoformat h)) info"
proof -
  define info0 where "info0 = [(''device_id'', PStr device_id),
                  (''hostname'', PStr (nodename h)),
                  (''kernel'', PStr (release h)),
                  (''architecture'', PStr (machine h)),
                  (''timestamp'', PStr (utcnow_isoformat h))]"
  obtain out info where r: "collect_extended py h info0 = (out, info)"
    by (cases "collect_extended py h info0")
  have p: "plain out"
    using plain_collect_extended [OF assms, of py info0] r by simp
  have k: "keeps k v info" if "k \<in> {''device_id'', ''hostname'', ''kernel'', ''architecture'', ''timestamp''}"
      and "keeps k v info0" for k v
    using collect_extended_keeps [OF that, of py h] r by simp
  have "fst (get_system_info py h device_id w) = Return (PDict info)"
    using p r unfolding get_system_info_def info0_def [symmetric] Let_def
    by (cases out) (auto split: raised.splits)
  moreover have "keeps ''device_id'' (PStr device_id) info" by (rule k) (simp_all add: info0_def keeps_def)
  moreover have "keeps ''hostname'' (PStr (nodename h)) info" by (rule k) (simp_all add: info0_def keeps_def)
  moreover have "keeps ''kernel'' (PStr (release h)) info" by (rule k) (simp_all add: info0_def keeps_def)
  moreover have "keeps ''architecture'' (PStr (machine h)) info" by (rule k) (simp_all add: info0_def keeps_def)
  moreover have "keeps ''timestamp'' (PStr (utcnow_isoformat h)) info" by (rule k) (simp_all add: info0_def keeps_def)
  ultimately show ?thesis by blast
qed

subsection \<open>One heartbeat\<close>

lemma lift_raised_simps [simp]:
  "lift_raised (Inl e) s = (Raise e, s)"
  "lift_raised (Inr x) s = (Return x, s)"
  by (simp_all add: lift_raised_def)

lemma send_heartbeat_unfold:
  assumes "session t" and "config ''server'' ''url'' = Some server_url"
      and "get_system_info py (tick_host t) device_id w = (Return info, w1)"
  shows "send_heartbeat config device_id py t w =
     except_Exception
       (case post t (heartbeat_url config device_id server_url) info (heartbeat_headers config) of
          PostRaises e \<Rightarrow>
            (Raise e, emit (Post (heartbeat_url config device_id server_url) info (heartbeat_headers config)) w1)
        | Response status body \<Rightarrow>
            if status = 200
            then process_response (subprocess_run (tick_host t)) body
                   (log DEBUG HeartbeatSent
                      (emit (Post (heartbeat_url config device_id server_url) info (heartbeat_headers config)) w1))
            else (Return (),
                  log ERROR (HeartbeatFailedHTTP status)
                    (emit (Post (heartbeat_url config device_id server_url) info (heartbeat_headers config)) w1)))
       (\<lambda>e w'. (Return (), log ERROR (FailedSendHeartbeat e) w'))"
  using assms by (simp add: send_heartbeat_def config_get_def Let_def)

lemma get_system_info_execs:
  "get_system_info py h device_id w = (out, w1) \<Longrightarrow> execs (trace w1) = execs (trace w)"
  using get_system_info_world [of py h device_id w] by auto

lemma process_response_no_commands:
  assumes "map_of kvs ''commands'' = None \<or> map_of kvs ''commands'' = Some (PList [])"
  shows "process_response run (Inr (PDict kvs)) w = (Return (), w)"
  using assms
  by (auto simp: process_response_def py_contains_def py_subscript_def process_commands_def py_iter_def)

lemma process_response_commands:
  assumes "map_of kvs ''commands'' = Some (PList cmds)"
  shows "process_response run (Inr (PDict kvs)) w =
         except_Exception (for_command run cmds w)
           (\<lambda>e w'. (Return (), log ERROR (FailedProcessServerResponse e) w'))"
  using assms
  by (simp add: process_response_def py_contains_def py_subscript_def process_commands_def py_iter_def)

lemma execs_except_log:
  "execs (trace (snd (except_Exception r (\<lambda>e w'. (Return (), log l (m e) w'))))) = execs (trace (snd r))"
proof (cases r)
  case (Pair out w1)
  show ?thesis
  proof (cases out)
    case (Raise e)
    with Pair show ?thesis by (cases e) simp_all
  qed (simp_all add: Pair)
qed

subsection \<open>The concrete surroundings, evaluated\<close>

lemma snapshot_on_bare_host:
  "get_system_info example_builtins bare_host ''kiosk-1'' fresh
   = (Return bare_info, \<lparr>trace = [Log ERROR (FailedCollectSystemInfo OSError)], websocket = None\<rparr>)"
  by (simp add: get_system_info_def collect_extended_def collect_cpu_def bare_host_def bare_info_def
      fresh_def log_def emit_def)

lemma example_url:
  "heartbeat_url example_config ''kiosk-1'' ''http://kiosk.example''
   = ''http://kiosk.example/api/devices/kiosk-1/heartbeat''"
  by (simp add: heartbeat_url_def config_get_fallback_def example_config_def)

lemma example_headers:
  "heartbeat_headers example_config
   = [(''Content-Type'', ''application/json''), (''User-Agent'', ''KioskAgent/1.0'')]"
  by (simp add: heartbeat_headers_def config_get_fallback_def example_config_def)

lemma answering_tick_simps [simp]:
  "running (answering_tick r)" "session (answering_tick r)"
  "tick_host (answering_tick r) = bare_host"
  "post (answering_tick r) url body headers = r"
  "sleep_result (answering_tick r) = None"
  by (simp_all add: answering_tick_def)

subsection \<open>Dispatch leaves the connection alone\<close>

lemma same_stream_refl [simp]: "same_stream w w"
  by (simp add: same_stream_def)

lemma same_stream_log [simp]: "same_stream w (log l m w') = same_stream w w'"
  by (simp add: same_stream_def)

lemma same_stream_Exec [simp]: "same_stream w (emit (Exec a) w') = same_stream w w'"
  by (simp add: same_stream_def)

lemma same_stream_Subprocess [simp]: "same_stream w (emit (Subprocess argv) w') = same_stream w w'"
  by (simp add: same_stream_def)



lemma same_stream_lift [simp]: "same_stream w (snd (lift r s)) = same_stream w s"
  by (cases r) simp_all











text \<open>The receive loop handles a prefix of the messages before it handles the rest.\<close>

lemma receive_append:
  "receive py (fs @ gs) fin w = and_then (receive py fs ClosedOK w) (\<lambda>_. receive py gs fin)"
proof (induction fs arbitrary: w)
  case Nil
  show ?case by simp
next
  case (Cons f fs)
  obtain out w1 where m: "on_message py f w = (out, w1)"
    by (cases "on_message py f w")
  show ?case
    using Cons.IH [of w1] m by (cases out) simp_all
qed

lemma quiet_frame_simps [simp]:
  "message (quiet_frame s) = s" "frame_run (quiet_frame s) argv = Completed 0 []"
  "send_result (quiet_frame s) = None"
  by (simp_all add: quiet_frame_def)

lemma hanging_frame_simps [simp]:
  "message (hanging_frame s) = s" "frame_run (hanging_frame s) argv = ProcHangs"
  "send_result (hanging_frame s) = None"
  by (simp_all add: hanging_frame_def)

lemma example_json_loads [simp]:
  "json_loads example_builtins ping_text = Inr (PDict [(''type'', PStr ''ping'')])"
  "json_loads example_builtins restart_text
   = Inr (PDict [(''type'', PStr ''command''), (''data'', PDict [(''type'', PStr ''restart'')])])"
  "json_loads example_builtins bad_command_text
   = Inr (PDict [(''type'', PStr ''command''), (''data'', PInt 7)])"
  "json_loads example_builtins ''[1]'' = Inr (PList [PInt 1])"
  "json_loads example_builtins ''not json'' = Inl JSONDecodeError"
  by (simp_all add: example_builtins_def ping_text_def restart_text_def bad_command_text_def)

subsection \<open>What the two defects do in general\<close>


text \<open>
  Connection attempts that fail with an \<^verbatim>\<open>Exception\<close> while the flag is set: the
  loop keeps running and never sleeps.
\<close>

lemma connect_websocket_refused:
  assumes "config ''server'' ''url'' = Some server_url"
      and "connect_result a (websocket_url device_id server_url) (websocket_headers config)
           = Some (Exception e)"
  shows "connect_websocket config device_id py a w
         = (Return (),
            w\<lparr>trace := trace w @ [Connect (websocket_url device_id server_url) (websocket_headers config),
                                     Log ERROR (WebSocketConnectionFailed e)]\<rparr>)"
  using assms by (simp add: connect_websocket_def config_get_def Let_def log_def emit_def)

lemma websocket_loop_refused:
  assumes "config ''server'' ''url'' = Some server_url"
      and "list_all (\<lambda>a. ws_running a \<and>
             (\<exists>e. connect_result a (websocket_url device_id server_url) (websocket_headers config)
                  = Some (Exception e))) attempts"
  shows "fst (websocket_loop config device_id py attempts w) = None
         \<and> sleeps (trace (snd (websocket_loop config device_id py attempts w))) = sleeps (trace w)"
  using assms(2)
proof (induction attempts arbitrary: w)
  case Nil
  show ?case by simp
next
  case (Cons a attempts)
  then obtain e where run: "ws_running a"
    and e: "connect_result a (websocket_url device_id server_url) (websocket_headers config)
            = Some (Exception e)"
    by auto
  from Cons have rest: "list_all (\<lambda>a. ws_running a \<and>
             (\<exists>e. connect_result a (websocket_url device_id server_url) (websocket_headers config)
                  = Some (Exception e))) attempts"
    by simp
  show ?case
    using Cons.IH [OF rest] run
    by (simp add: connect_websocket_refused [where config = config, OF assms(1) e])
qed

subsection \<open>Malformed messages, one by one and in a row\<close>

lemma receive_Nil: "receive py [] fin w = (end_outcome fin, w)"
  by (simp add: end_outcome_def split: stream_end.splits)




subsection \<open>The trace only grows\<close>

lemma grows_refl [simp]: "grows w w"
  by (simp add: grows_def)

lemma grows_emit: "grows w w' \<Longrightarrow> grows w (emit ev w')"
  by (auto simp: grows_def)

lemma grows_log: "grows w w' \<Longrightarrow> grows w (log l m w')"
  by (simp add: log_def grows_emit)

lemma grows_and_then:
  assumes "grows w (snd m)" and "\<And>x s. grows w s \<Longrightarrow> grows w (snd (f x s))"
  shows "grows w (snd (and_then m f))"
proof (cases m)
  case (Pair out s)
  with assms show ?thesis by (cases out) simp_all
qed

lemma grows_except:
  assumes "grows w (snd r)" and "\<And>e s. grows w s \<Longrightarrow> grows w (snd (h e s))"
  shows "grows w (snd (except_Exception r h))"
proof (cases r)
  case (Pair out s)
  show ?thesis
  proof (cases out)
    case (Raise e)
    with Pair assms show ?thesis by (cases e) simp_all
  qed (use Pair assms in simp_all)
qed

lemma grows_lift: "grows w s \<Longrightarrow> grows w (snd (lift r s))"
  by (cases r) simp_all

lemma grows_restart_system: "grows w w' \<Longrightarrow> grows w (snd (restart_system run w'))"
  by (simp add: restart_system_def Let_def grows_emit grows_log split: proc_result.splits)

lemma grows_update_system: "grows w w' \<Longrightarrow> grows w (snd (update_system d w'))"
  by (simp add: update_system_def grows_emit grows_log)

lemma grows_install_application: "grows w w' \<Longrightarrow> grows w (snd (install_application d w'))"
  by (cases "py_get d ''name'' PNone"; cases "py_get d ''url'' PNone")
     (simp_all add: install_application_def grows_emit grows_log)

lemma grows_uninstall_application: "grows w w' \<Longrightarrow> grows w (snd (uninstall_application d w'))"
  by (cases "py_get d ''name'' PNone")
     (simp_all add: uninstall_application_def grows_emit grows_log)

lemma grows_configure_system: "grows w w' \<Longrightarrow> grows w (snd (configure_system d w'))"
  by (simp add: configure_system_def grows_emit grows_log)

lemma grows_dispatch_try:
  assumes "grows w w'"
  shows "grows w (snd (dispatch_try run c w'))"
  using assms
  by (cases "py_get c ''type'' PNone"; cases "py_get c ''data'' (PDict [])")
     (simp_all add: dispatch_try_def Let_def grows_log grows_restart_system
        grows_update_system grows_install_application
        grows_uninstall_application grows_configure_system)

lemma grows_dispatch_except: "grows w w' \<Longrightarrow> grows w (snd (dispatch_except c e w'))"
  by (cases "py_get c ''type'' PNone") (simp_all add: dispatch_except_def grows_log)

lemma grows_for_command: "grows w w' \<Longrightarrow> grows w (snd (for_command run cs w'))"
proof (induction cs arbitrary: w')
  case Nil
  then show ?case by simp
next
  case (Cons c cs)
  show ?case
    unfolding for_command.simps
    by (intro grows_and_then grows_except grows_dispatch_try grows_dispatch_except
          Cons.IH Cons.prems)
qed

lemma grows_process_commands: "grows w w' \<Longrightarrow> grows w (snd (process_commands run cmds w'))"
  unfolding process_commands_def
  by (intro grows_and_then grows_for_command grows_lift)

lemma grows_handle_websocket_message:
  assumes "grows w w'"
  shows "grows w (snd (handle_websocket_message f v w'))"
  using assms
  by (cases "py_get v ''type'' PNone"; cases "py_get v ''data'' (PDict [])")
     (auto simp: handle_websocket_message_def grows_log grows_emit grows_process_commands
        split: option.splits)

lemma grows_on_message: "grows w w' \<Longrightarrow> grows w (snd (on_message py f w'))"
  unfolding on_message_def
  by (intro grows_except grows_and_then grows_lift grows_handle_websocket_message)
     (simp_all add: grows_log)

lemma grows_receive: "grows w w' \<Longrightarrow> grows w (snd (receive py fs fin w'))"
proof (induction fs arbitrary: w')
  case Nil
  then show ?case by (simp split: stream_end.splits)
next
  case (Cons f fs)
  show ?case
    unfolding receive.simps
    by (intro grows_and_then grows_on_message Cons.IH Cons.prems)
qed

section \<open>The claims\<close>

subsection \<open>Dispatch\<close>

text \<open>
  Claim C1. Every error raised while one element of the batch is handled, also for an
  element that is not a mapping, is caught and logged at the dispatch boundary, and the
  remaining elements are processed. The code does not do this for an element that is not a
  mapping: \<^verbatim>\<open>command.get('type')\<close> raises \<^verbatim>\<open>AttributeError\<close> in the
  \<^verbatim>\<open>try\<close>, the handler's log line calls \<^verbatim>\<open>command.get('type')\<close> again, and the
  second \<^verbatim>\<open>AttributeError\<close> leaves \<^verbatim>\<open>process_commands\<close>. On the batch
  \<^verbatim>\<open>[7, {"type": "configure"}]\<close> nothing is logged, the \<^verbatim>\<open>configure\<close> command is
  never dispatched, and the caller gets the exception.
\<close>

theorem non_mapping_element_aborts_batch:
  "process_commands (\<lambda>argv. Completed 0 [])
     (PList [PInt 7, PDict [(''type'', PStr ''configure'')]])
     \<lparr>trace = [], websocket = None\<rparr>
   = (Raise (Exception AttributeError), \<lparr>trace = [], websocket = None\<rparr>)"
  by (simp add: process_commands_def py_iter_def dispatch_try_def dispatch_except_def py_get_def)

text \<open>
  Claim C3. An envelope whose kind is none of \<^verbatim>\<open>restart\<close>, \<^verbatim>\<open>update\<close>,
  \<^verbatim>\<open>install_app\<close>, \<^verbatim>\<open>uninstall_app\<close>, \<^verbatim>\<open>configure\<close> (a missing kind reads as
  \<^verbatim>\<open>None\<close>) is logged with a warning and skipped: the iteration adds the line
  "Processing command" and the warning to the trace, calls no executor method, raises
  nothing, and the batch goes on with the next element.
\<close>

theorem unknown_kind_is_logged_and_skipped:
  assumes "\<not> spec_recognized (kind kvs)"
  shows "process_commands run (PList (PDict kvs # rest)) w
         = process_commands run (PList rest)
             (w\<lparr>trace := trace w @ [Log INFO (ProcessingCommand (kind kvs)),
                                     Log WARNING (UnknownCommandType (kind kvs))]\<rparr>)
         \<and> process_commands run (PList [PDict kvs]) w
           = (Return (),
              w\<lparr>trace := trace w @ [Log INFO (ProcessingCommand (kind kvs)),
                                      Log WARNING (UnknownCommandType (kind kvs))]\<rparr>)"
  using assms
  by (simp add: process_commands_def py_iter_def dispatch_try_def spec_recognized_def log_def emit_def)

theorem unknown_kind_is_logged_and_skipped_witness:
  "\<not> spec_recognized (kind [(''type'', PStr ''selfdestruct'')])
   \<and> process_commands (\<lambda>argv. Completed 0 []) (PList [PDict [(''type'', PStr ''selfdestruct'')]])
       \<lparr>trace = [], websocket = None\<rparr>
     = (Return (),
        \<lparr>trace = [Log INFO (ProcessingCommand (PStr ''selfdestruct'')),
                  Log WARNING (UnknownCommandType (PStr ''selfdestruct''))],
         websocket = None\<rparr>)
   \<and> \<not> spec_recognized (kind [(''data'', PInt 1)])
   \<and> process_commands (\<lambda>argv. Completed 0 []) (PList [PDict [(''data'', PInt 1)]])
       \<lparr>trace = [], websocket = None\<rparr>
     = (Return (),
        \<lparr>trace = [Log INFO (ProcessingCommand PNone), Log WARNING (UnknownCommandType PNone)],
         websocket = None\<rparr>)"
proof -
  have a: "\<not> spec_recognized (kind [(''type'', PStr ''selfdestruct'')])"
    by (simp add: spec_recognized_def kind_def)
  have b: "\<not> spec_recognized (kind [(''data'', PInt 1)])"
    by (simp add: spec_recognized_def kind_def)
  show ?thesis
    using a b
      unknown_kind_is_logged_and_skipped
        [OF a, where run = "\<lambda>argv. Completed 0 []" and rest = "[]"
           and w = "\<lparr>trace = [], websocket = None\<rparr>", THEN conjunct2]
      unknown_kind_is_logged_and_skipped
        [OF b, where run = "\<lambda>argv. Completed 0 []" and rest = "[]"
           and w = "\<lparr>trace = [], websocket = None\<rparr>", THEN conjunct2]
    by (simp add: kind_def)
qed

subsection \<open>The telemetry snapshot\<close>

text \<open>
  Claim C10. \<^verbatim>\<open>get_system_info\<close> never raises, whatever the host and the library
  functions do, and unless the child process \<^verbatim>\<open>ip addr show\<close> never exits it
  returns a mapping that holds the five base fields \<^verbatim>\<open>device_id\<close>, \<^verbatim>\<open>hostname\<close>,
  \<^verbatim>\<open>kernel\<close>, \<^verbatim>\<open>architecture\<close> and \<^verbatim>\<open>timestamp\<close> with the values they were
  given before the extended facts were collected.
\<close>

theorem get_system_info_base_fields:
  "(\<forall>e. fst (get_system_info py h device_id w) \<noteq> Raise e)
   \<and> (subprocess_run h [''ip'', ''addr'', ''show''] \<noteq> ProcHangs \<longrightarrow>
        (\<exists>info. fst (get_system_info py h device_id w) = Return (PDict info)
           \<and> map_of info ''device_id'' = Some (PStr device_id)
           \<and> map_of info ''hostname'' = Some (PStr (nodename h))
           \<and> map_of info ''kernel'' = Some (PStr (release h))
           \<and> map_of info ''architecture'' = Some (PStr (machine h))
           \<and> map_of info ''timestamp'' = Some (PStr (utcnow_isoformat h))))"
  using get_system_info_not_raise [of py h device_id w] get_system_info_returns [of h py device_id w]
  by (auto simp: keeps_def)

theorem get_system_info_base_fields_witness:
  "subprocess_run bare_host [''ip'', ''addr'', ''show''] \<noteq> ProcHangs
   \<and> get_system_info example_builtins bare_host ''kiosk-1'' fresh
     = (Return bare_info, \<lparr>trace = [Log ERROR (FailedCollectSystemInfo OSError)], websocket = None\<rparr>)
   \<and> (\<exists>info. fst (get_system_info example_builtins bare_host ''kiosk-1'' fresh) = Return (PDict info)
         \<and> map_of info ''device_id'' = Some (PStr ''kiosk-1'')
         \<and> map_of info ''hostname'' = Some (PStr ''kiosk'')
         \<and> map_of info ''kernel'' = Some (PStr ''6.1.0'')
         \<and> map_of info ''architecture'' = Some (PStr ''x86_64'')
         \<and> map_of info ''timestamp'' = Some (PStr ''2024-01-01T00:00:00+00:00''))"
proof -
  have a: "subprocess_run bare_host [''ip'', ''addr'', ''show''] \<noteq> ProcHangs"
    by (simp add: bare_host_def)
  have b: "nodename bare_host = ''kiosk''" "release bare_host = ''6.1.0''"
    "machine bare_host = ''x86_64''" "utcnow_isoformat bare_host = ''2024-01-01T00:00:00+00:00''"
    by (simp_all add: bare_host_def)
  from get_system_info_base_fields [of example_builtins bare_host "''kiosk-1''" fresh, THEN conjunct2, rule_format, OF a]
  show ?thesis
    using a by (simp only: b snapshot_on_bare_host simp_thms)
qed

subsection \<open>The heartbeat channel\<close>

text \<open>
  Claim C4. A heartbeat whose response has status 200 and a JSON body without the field
  \<^verbatim>\<open>commands\<close>, or with \<^verbatim>\<open>commands\<close> an empty array, dispatches nothing: after
  the snapshot, all the tick does is send the request and log its success at debug level.
  No element is handed to the dispatcher (no line "Processing command") and no executor
  method is called.
\<close>

theorem no_commands_no_dispatch:
  assumes "session t" and "config ''server'' ''url'' = Some server_url"
      and "get_system_info py (tick_host t) device_id w = (Return info, w1)"
      and "post t (heartbeat_url config device_id server_url) info (heartbeat_headers config)
           = Response 200 (Inr (PDict kvs))"
      and "map_of kvs ''commands'' = None \<or> map_of kvs ''commands'' = Some (PList [])"
  shows "send_heartbeat config device_id py t w
         = (Return (),
            w1\<lparr>trace := trace w1 @ [Post (heartbeat_url config device_id server_url) info (heartbeat_headers config),
                                      Log DEBUG HeartbeatSent]\<rparr>)
         \<and> (trace w1 = trace w \<or> (\<exists>e. trace w1 = trace w @ [Log ERROR (FailedCollectSystemInfo e)]))
         \<and> execs (trace (snd (send_heartbeat config device_id py t w))) = execs (trace w)"
proof -
  have eq: "send_heartbeat config device_id py t w
         = (Return (),
            w1\<lparr>trace := trace w1 @ [Post (heartbeat_url config device_id server_url) info (heartbeat_headers config),
                                      Log DEBUG HeartbeatSent]\<rparr>)"
    using assms(4) process_response_no_commands [OF assms(5)]
    by (simp add: send_heartbeat_unfold [where config = config, OF assms(1-3)] log_def emit_def)
  have w1: "trace w1 = trace w \<or> (\<exists>e. trace w1 = trace w @ [Log ERROR (FailedCollectSystemInfo e)])"
    using get_system_info_world [of py "tick_host t" device_id w] assms(3) by auto
  have "execs (trace w1) = execs (trace w)"
    using get_system_info_execs [OF assms(3)] .
  with eq w1 show ?thesis by simp
qed

theorem no_commands_no_dispatch_witness:
  "send_heartbeat example_config ''kiosk-1'' example_builtins
     (answering_tick (Response 200 (Inr (PDict [(''status'', PStr ''ok'')])))) fresh
   = (Return (),
      \<lparr>trace = [Log ERROR (FailedCollectSystemInfo OSError),
                Post ''http://kiosk.example/api/devices/kiosk-1/heartbeat'' bare_info
                  [(''Content-Type'', ''application/json''), (''User-Agent'', ''KioskAgent/1.0'')],
                Log DEBUG HeartbeatSent],
       websocket = None\<rparr>)
   \<and> send_heartbeat example_config ''kiosk-1'' example_builtins
       (answering_tick (Response 200 (Inr (PDict [(''commands'', PList [])])))) fresh
     = (Return (),
        \<lparr>trace = [Log ERROR (FailedCollectSystemInfo OSError),
                  Post ''http://kiosk.example/api/devices/kiosk-1/heartbeat'' bare_info
                    [(''Content-Type'', ''application/json''), (''User-Agent'', ''KioskAgent/1.0'')],
                  Log DEBUG HeartbeatSent],
         websocket = None\<rparr>)"
proof -
  have url: "example_config ''server'' ''url'' = Some ''http://kiosk.example''"
    by (simp add: example_config_def)
  have absent: "map_of [(''status'', PStr ''ok'')] ''commands'' = None
                \<or> map_of [(''status'', PStr ''ok'')] ''commands'' = Some (PList [])"
    by simp
  have empty: "map_of [(''commands'', PList [])] ''commands'' = None
               \<or> map_of [(''commands'', PList [])] ''commands'' = Some (PList [])"
    by simp
  have snap: "get_system_info example_builtins (tick_host (answering_tick r)) ''kiosk-1'' fresh
     = (Return bare_info, \<lparr>trace = [Log ERROR (FailedCollectSystemInfo OSError)], websocket = None\<rparr>)" for r
    by (simp add: snapshot_on_bare_host)
  note a = no_commands_no_dispatch
    [where config = example_config and t = "answering_tick (Response 200 (Inr (PDict [(''status'', PStr ''ok'')])))",
     OF _ url snap _ absent, THEN conjunct1]
  note b = no_commands_no_dispatch
    [where config = example_config and t = "answering_tick (Response 200 (Inr (PDict [(''commands'', PList [])])))",
     OF _ url snap _ empty, THEN conjunct1]
  show ?thesis
    using a b by (simp add: example_url example_headers)
qed

text \<open>
  Claim C5. The commands of a heartbeat response are dispatched in array order. The
  executor calls the tick makes are the calls \<open>spec_route\<close> gives for the first \<open>k\<close>
  elements of the array, in the order of the array, for some \<open>k\<close>; when every element
  is a mapping and the reboot command does not hang, \<open>k\<close> is the length of the array and
  the tick returns. So the call for the element at index \<open>i\<close> comes before the call for
  the element at index \<open>j\<close> whenever \<open>i < j\<close> and both are made.
\<close>

theorem heartbeat_commands_in_array_order:
  assumes "session t" and "config ''server'' ''url'' = Some server_url"
      and "get_system_info py (tick_host t) device_id w = (Return info, w1)"
      and "post t (heartbeat_url config device_id server_url) info (heartbeat_headers config)
           = Response 200 (Inr (PDict kvs))"
      and "map_of kvs ''commands'' = Some (PList cmds)"
  shows "(\<exists>k. execs (trace (snd (send_heartbeat config device_id py t w)))
               = execs (trace w) @ List.map_filter spec_route (take k cmds))
         \<and> (list_all is_mapping cmds
              \<and> subprocess_run (tick_host t) [''sudo'', ''systemctl'', ''reboot''] \<noteq> ProcHangs
            \<longrightarrow> fst (send_heartbeat config device_id py t w) = Return ()
                \<and> execs (trace (snd (send_heartbeat config device_id py t w)))
                  = execs (trace w) @ List.map_filter spec_route cmds)"
proof -
  let ?w2 = "log DEBUG HeartbeatSent
               (emit (Post (heartbeat_url config device_id server_url) info (heartbeat_headers config)) w1)"
  let ?run = "subprocess_run (tick_host t)"
  let ?inner = "except_Exception (for_command ?run cmds ?w2)
                  (\<lambda>e w'. (Return (), log ERROR (FailedProcessServerResponse e) w'))"
  have sh: "send_heartbeat config device_id py t w
            = except_Exception ?inner (\<lambda>e w'. (Return (), log ERROR (FailedSendHeartbeat e) w'))"
    using assms(4) process_response_commands [OF assms(5)]
    by (simp add: send_heartbeat_unfold [where config = config, OF assms(1-3)])
  have base: "execs (trace ?w2) = execs (trace w)"
    using get_system_info_execs [OF assms(3)] by simp
  have ex: "execs (trace (snd (send_heartbeat config device_id py t w)))
            = execs (trace (snd (for_command ?run cmds ?w2)))"
    unfolding sh by (simp only: execs_except_log)
  have first: "\<exists>k. execs (trace (snd (send_heartbeat config device_id py t w)))
               = execs (trace w) @ List.map_filter spec_route (take k cmds)"
    using for_command_execs [of ?run cmds ?w2] ex base by simp
  have second: "fst (send_heartbeat config device_id py t w) = Return ()
                \<and> execs (trace (snd (send_heartbeat config device_id py t w)))
                  = execs (trace w) @ List.map_filter spec_route cmds"
    if "list_all is_mapping cmds" and "?run [''sudo'', ''systemctl'', ''reboot''] \<noteq> ProcHangs"
  proof -
    have fc: "fst (for_command ?run cmds ?w2) = Return ()
         \<and> execs (trace (snd (for_command ?run cmds ?w2))) = execs (trace ?w2) @ List.map_filter spec_route cmds"
      by (rule for_command_mappings [where run = "?run", OF that(2) that(1)])
    then obtain w3 where "for_command ?run cmds ?w2 = (Return (), w3)"
      by (cases "for_command ?run cmds ?w2") auto
    then have "fst (send_heartbeat config device_id py t w) = Return ()"
      unfolding sh by simp
    with fc ex base show ?thesis by simp
  qed
  from first second show ?thesis by blast
qed

theorem heartbeat_commands_in_array_order_witness:
  "execs (trace (snd (send_heartbeat example_config ''kiosk-1'' example_builtins
     (answering_tick (Response 200 (Inr (PDict [(''commands'',
        PList [PDict [(''type'', PStr ''configure''), (''data'', PDict [(''a'', PInt 1)])],
               PDict [(''type'', PStr ''configure''), (''data'', PDict [(''a'', PInt 2)])]])]))))
     fresh)))
   = [Configure_system (PDict [(''a'', PInt 1)]), Configure_system (PDict [(''a'', PInt 2)])]"
proof -
  let ?c1 = "PDict [(''type'', PStr ''configure''), (''data'', PDict [(''a'', PInt 1)])]"
  let ?c2 = "PDict [(''type'', PStr ''configure''), (''data'', PDict [(''a'', PInt 2)])]"
  let ?t = "answering_tick (Response 200 (Inr (PDict [(''commands'', PList [?c1, ?c2])])))"
  have url: "example_config ''server'' ''url'' = Some ''http://kiosk.example''"
    by (simp add: example_config_def)
  have snap: "get_system_info example_builtins (tick_host ?t) ''kiosk-1'' fresh
     = (Return bare_info, \<lparr>trace = [Log ERROR (FailedCollectSystemInfo OSError)], websocket = None\<rparr>)"
    by (simp add: snapshot_on_bare_host)
  have cmds: "map_of [(''commands'', PList [?c1, ?c2])] ''commands'' = Some (PList [?c1, ?c2])"
    by simp
  have sess: "session ?t"
    by simp
  have resp: "post ?t (heartbeat_url example_config ''kiosk-1'' ''http://kiosk.example'') bare_info
                (heartbeat_headers example_config)
              = Response 200 (Inr (PDict [(''commands'', PList [?c1, ?c2])]))"
    by simp
  have ok: "list_all is_mapping [?c1, ?c2]
            \<and> subprocess_run (tick_host ?t) [''sudo'', ''systemctl'', ''reboot''] \<noteq> ProcHangs"
    by (simp add: is_mapping_def bare_host_def)
  note th = heartbeat_commands_in_array_order
    [where config = example_config and t = ?t, OF sess url snap resp cmds, THEN conjunct2, rule_format, OF ok]
  have "List.map_filter spec_route [?c1, ?c2]
        = [Configure_system (PDict [(''a'', PInt 1)]), Configure_system (PDict [(''a'', PInt 2)])]"
    by (simp add: List.map_filter_simps spec_route_def kind_def payload_def)
  with th show ?thesis by (simp add: fresh_def)
qed

text \<open>
  Claim C6. A heartbeat tick that fails is caught and logged inside the tick and the loop
  goes on: when the request raises an \<^verbatim>\<open>Exception\<close>, when the status is not 200,
  when reading the JSON body raises an \<^verbatim>\<open>Exception\<close>, and when the body is a value
  that cannot hold a field, the iteration adds the request, one error line and exactly one
  sleep of the configured interval to the trace, and \<^verbatim>\<open>heartbeat_loop\<close> continues
  with the next iteration.
\<close>

theorem failed_heartbeat_is_retried_next_tick:
  assumes "running t" and "session t" and "config ''server'' ''url'' = Some server_url"
      and "get_system_info py (tick_host t) device_id w = (Return info, w1)"
      and "sleep_result t = None"
  shows
    "(post t (heartbeat_url config device_id server_url) info (heartbeat_headers config)
        = PostRaises (Exception e) \<longrightarrow>
      heartbeat_loop config device_id py interval (t # ts) w
      = heartbeat_loop config device_id py interval ts
          (w1\<lparr>trace := trace w1 @
             [Post (heartbeat_url config device_id server_url) info (heartbeat_headers config),
              Log ERROR (FailedSendHeartbeat e), Sleep interval]\<rparr>))
     \<and> (post t (heartbeat_url config device_id server_url) info (heartbeat_headers config)
          = Response status body \<and> status \<noteq> 200 \<longrightarrow>
        heartbeat_loop config device_id py interval (t # ts) w
        = heartbeat_loop config device_id py interval ts
            (w1\<lparr>trace := trace w1 @
               [Post (heartbeat_url config device_id server_url) info (heartbeat_headers config),
                Log ERROR (HeartbeatFailedHTTP status), Sleep interval]\<rparr>))
     \<and> (post t (heartbeat_url config device_id server_url) info (heartbeat_headers config)
          = Response 200 (Inl (Exception e)) \<longrightarrow>
        heartbeat_loop config device_id py interval (t # ts) w
        = heartbeat_loop config device_id py interval ts
            (w1\<lparr>trace := trace w1 @
               [Post (heartbeat_url config device_id server_url) info (heartbeat_headers config),
                Log DEBUG HeartbeatSent, Log ERROR (FailedProcessServerResponse e), Sleep interval]\<rparr>))
     \<and> (post t (heartbeat_url config device_id server_url) info (heartbeat_headers config)
          = Response 200 (Inr v) \<and> py_contains v ''commands'' = Inl e \<longrightarrow>
        heartbeat_loop config device_id py interval (t # ts) w
        = heartbeat_loop config device_id py interval ts
            (w1\<lparr>trace := trace w1 @
               [Post (heartbeat_url config device_id server_url) info (heartbeat_headers config),
                Log DEBUG HeartbeatSent, Log ERROR (FailedProcessServerResponse e), Sleep interval]\<rparr>))"
  using assms(1,5)
  by (simp add: send_heartbeat_unfold [where config = config, OF assms(2-4)] process_response_def
      sleep_def log_def emit_def)

theorem failed_heartbeat_is_retried_next_tick_witness:
  "heartbeat_loop example_config ''kiosk-1'' example_builtins 60
     [answering_tick (PostRaises (Exception ClientError))] fresh
   = (None,
      \<lparr>trace = [Log ERROR (FailedCollectSystemInfo OSError),
                Post ''http://kiosk.example/api/devices/kiosk-1/heartbeat'' bare_info
                  [(''Content-Type'', ''application/json''), (''User-Agent'', ''KioskAgent/1.0'')],
                Log ERROR (FailedSendHeartbeat ClientError), Sleep 60],
       websocket = None\<rparr>)
   \<and> heartbeat_loop example_config ''kiosk-1'' example_builtins 60
       [answering_tick (Response 503 (Inl (Exception ClientError)))] fresh
     = (None,
        \<lparr>trace = [Log ERROR (FailedCollectSystemInfo OSError),
                  Post ''http://kiosk.example/api/devices/kiosk-1/heartbeat'' bare_info
                    [(''Content-Type'', ''application/json''), (''User-Agent'', ''KioskAgent/1.0'')],
                  Log ERROR (HeartbeatFailedHTTP 503), Sleep 60],
         websocket = None\<rparr>)
   \<and> heartbeat_loop example_config ''kiosk-1'' example_builtins 60
       [answering_tick (Response 200 (Inl (Exception JSONDecodeError)))] fresh
     = (None,
        \<lparr>trace = [Log ERROR (FailedCollectSystemInfo OSError),
                  Post ''http://kiosk.example/api/devices/kiosk-1/heartbeat'' bare_info
                    [(''Content-Type'', ''application/json''), (''User-Agent'', ''KioskAgent/1.0'')],
                  Log DEBUG HeartbeatSent, Log ERROR (FailedProcessServerResponse JSONDecodeError), Sleep 60],
         websocket = None\<rparr>)"
proof -
  have url: "example_config ''server'' ''url'' = Some ''http://kiosk.example''"
    by (simp add: example_config_def)
  have snap: "get_system_info example_builtins (tick_host (answering_tick r)) ''kiosk-1'' fresh
     = (Return bare_info, \<lparr>trace = [Log ERROR (FailedCollectSystemInfo OSError)], websocket = None\<rparr>)" for r
    by (simp add: snapshot_on_bare_host)
  have run: "running (answering_tick r)" and sess: "session (answering_tick r)"
    and sl: "sleep_result (answering_tick r) = None" for r
    by simp_all
  note a = failed_heartbeat_is_retried_next_tick
    [where config = example_config and interval = 60 and ts = "[]" and e = ClientError,
     OF run sess url snap sl, THEN conjunct1, rule_format]
  note b = failed_heartbeat_is_retried_next_tick
    [where config = example_config and interval = 60 and ts = "[]" and status = 503
       and body = "Inl (Exception ClientError)",
     OF run sess url snap sl, THEN conjunct2, THEN conjunct1, rule_format]
  note c = failed_heartbeat_is_retried_next_tick
    [where config = example_config and interval = 60 and ts = "[]" and e = JSONDecodeError,
     OF run sess url snap sl, THEN conjunct2, THEN conjunct2, THEN conjunct1, rule_format]
  have "heartbeat_loop example_config ''kiosk-1'' example_builtins 60
     [answering_tick (PostRaises (Exception ClientError))] fresh
   = (None,
      \<lparr>trace = [Log ERROR (FailedCollectSystemInfo OSError),
                Post ''http://kiosk.example/api/devices/kiosk-1/heartbeat'' bare_info
                  [(''Content-Type'', ''application/json''), (''User-Agent'', ''KioskAgent/1.0'')],
                Log ERROR (FailedSendHeartbeat ClientError), Sleep 60],
       websocket = None\<rparr>)"
    by (subst a) (simp_all add: example_url example_headers)
  moreover have "heartbeat_loop example_config ''kiosk-1'' example_builtins 60
       [answering_tick (Response 503 (Inl (Exception ClientError)))] fresh
     = (None,
        \<lparr>trace = [Log ERROR (FailedCollectSystemInfo OSError),
                  Post ''http://kiosk.example/api/devices/kiosk-1/heartbeat'' bare_info
                    [(''Content-Type'', ''application/json''), (''User-Agent'', ''KioskAgent/1.0'')],
                  Log ERROR (HeartbeatFailedHTTP 503), Sleep 60],
         websocket = None\<rparr>)"
    by (subst b) (simp_all add: example_url example_headers)
  moreover have "heartbeat_loop example_config ''kiosk-1'' example_builtins 60
       [answering_tick (Response 200 (Inl (Exception JSONDecodeError)))] fresh
     = (None,
        \<lparr>trace = [Log ERROR (FailedCollectSystemInfo OSError),
                  Post ''http://kiosk.example/api/devices/kiosk-1/heartbeat'' bare_info
                    [(''Content-Type'', ''application/json''), (''User-Agent'', ''KioskAgent/1.0'')],
                  Log DEBUG HeartbeatSent, Log ERROR (FailedProcessServerResponse JSONDecodeError), Sleep 60],
         websocket = None\<rparr>)"
    by (subst c) (simp_all add: example_url example_headers)
  ultimately show ?thesis by blast
qed

subsection \<open>The command stream\<close>



text \<open>
  Claim C8. A stream message whose value is a mapping with \<^verbatim>\<open>type\<close> equal to
  \<^verbatim>\<open>ping\<close> is answered by exactly one call of \<^verbatim>\<open>send\<close> with the text
  \<^verbatim>\<open>{"type": "pong"}\<close> on the connection in \<^verbatim>\<open>self.websocket\<close>, and by nothing
  else: no element is handed to the dispatcher and no executor method is called. When
  the reply goes out the receive loop continues with the next message; when sending
  raises an \<^verbatim>\<open>Exception\<close> that is logged and the loop continues as well.
\<close>

theorem ping_is_answered_with_one_pong:
  assumes "json_loads py (message f) = Inr (PDict kvs)"
      and "map_of kvs ''type'' = Some (PStr ''ping'')"
      and "websocket w = Some c"
  shows "handle_websocket_message f (PDict kvs) w
         = ((case send_result f of None \<Rightarrow> Return () | Some e \<Rightarrow> Raise e),
            w\<lparr>trace := trace w @ [Send c pong]\<rparr>)
         \<and> (send_result f = None \<longrightarrow>
              receive py (f # fs) fin w = receive py fs fin (w\<lparr>trace := trace w @ [Send c pong]\<rparr>))
         \<and> (send_result f = Some (Exception e) \<longrightarrow>
              receive py (f # fs) fin w
              = receive py fs fin
                  (w\<lparr>trace := trace w @ [Send c pong, Log ERROR (FailedProcessWebSocketMessage e)]\<rparr>))"
  using assms
  by (auto simp: on_message_def handle_websocket_message_def py_get_def emit_def log_def
      split: option.splits)

theorem ping_is_answered_with_one_pong_witness:
  "connected example_builtins
     \<lparr>ws_running = True, connect_result = (\<lambda>url headers. None), conn = 4,
      inbound = [quiet_frame ping_text], ending = ClosedOK, cooldown_result = None\<rparr>
     fresh
   = (Return (),
      \<lparr>trace = [Log INFO WebSocketConnected, Send 4 pong, Close 4], websocket = Some 4\<rparr>)"
proof -
  let ?w = "\<lparr>trace = [Log INFO WebSocketConnected], websocket = Some 4\<rparr>"
  have a: "json_loads example_builtins (message (quiet_frame ping_text))
           = Inr (PDict [(''type'', PStr ''ping'')])"
    by simp
  have b: "map_of [(''type'', PStr ''ping'')] ''type'' = Some (PStr ''ping'')"
    by simp
  have c: "websocket ?w = Some 4"
    by simp
  have d: "send_result (quiet_frame ping_text) = None"
    by simp
  note th = ping_is_answered_with_one_pong
    [OF a b c, THEN conjunct2, THEN conjunct1, rule_format, OF d, where fs = "[]" and fin = ClosedOK]
  have "receive example_builtins [quiet_frame ping_text] ClosedOK ?w
        = (Return (), \<lparr>trace = [Log INFO WebSocketConnected, Send 4 pong], websocket = Some 4\<rparr>)"
    by (subst th) simp
  then show ?thesis
    by (simp add: connected_def fresh_def log_def emit_def)
qed

text \<open>
  Claim C9, as stated: the reply to a ping is never blocked on, or delayed by, a command
  dispatch that is still running. The code does not have this property: one loop handles the
  messages of a connection one after the other and awaits each handling, the executor
  call included, before it takes the next message. When the reboot command started by a
  \<^verbatim>\<open>restart\<close> command never exits, the ping that follows it on the connection gets
  no reply at all.
\<close>

theorem ping_waits_for_running_command:
  "receive example_builtins [hanging_frame restart_text, quiet_frame ping_text] ClosedOK on_connection_1
   = (Hang,
      \<lparr>trace = [Log INFO (ProcessingCommand (PStr ''restart'')), Exec Restart_system,
                Log INFO SystemRestartRequested, Subprocess [''sudo'', ''systemctl'', ''reboot'']],
       websocket = Some 1\<rparr>)
   \<and> sends (trace (snd (receive example_builtins
         [hanging_frame restart_text, quiet_frame ping_text] ClosedOK on_connection_1))) = []"
  by (simp add: on_message_def handle_websocket_message_def process_commands_def py_iter_def
      dispatch_try_def restart_system_def py_get_def on_connection_1_def log_def emit_def)

text \<open>
  Claim C9, as amended: the reply to a ping is blocked by a command dispatch that is in
  flight on the stream. The receive loop handles the messages of a connection strictly
  one after the other. While the executor action of a \<^verbatim>\<open>restart\<close> command received on
  the stream is still running, the loop is inside that action and handles none of the
  messages that follow, whatever they are, so a ping among them gets no pong. When the
  handling of the earlier messages does not return, nothing of a later message happens. And
  whatever a later message adds to the trace, the pong of a ping included, comes after
  everything the earlier messages added.
\<close>

theorem ping_gets_no_pong_while_command_runs:
  "(json_loads py (message f) = Inr (PDict kvs) \<and> kind kvs = PStr ''command''
      \<and> payload kvs = PDict cmd \<and> kind cmd = PStr ''restart''
      \<and> frame_run f [''sudo'', ''systemctl'', ''reboot''] = ProcHangs \<longrightarrow>
      receive py (f # gs) fin w
      = (Hang,
         w\<lparr>trace := trace w @
            [Log INFO (ProcessingCommand (PStr ''restart'')), Exec Restart_system,
             Log INFO SystemRestartRequested, Subprocess [''sudo'', ''systemctl'', ''reboot'']]\<rparr>))
   \<and> (fst (receive py fs ClosedOK w) \<noteq> Return () \<longrightarrow>
        receive py (fs @ p # gs) fin w = receive py fs ClosedOK w)
   \<and> (\<exists>evs. trace (snd (receive py (fs @ p # gs) fin w))
              = trace (snd (receive py fs ClosedOK w)) @ evs)"
proof -
  have hang: "receive py (f # gs) fin w
      = (Hang,
         w\<lparr>trace := trace w @
            [Log INFO (ProcessingCommand (PStr ''restart'')), Exec Restart_system,
             Log INFO SystemRestartRequested, Subprocess [''sudo'', ''systemctl'', ''reboot'']]\<rparr>)"
    if "json_loads py (message f) = Inr (PDict kvs)" and "kind kvs = PStr ''command''"
      and "payload kvs = PDict cmd" and "kind cmd = PStr ''restart''"
      and "frame_run f [''sudo'', ''systemctl'', ''reboot''] = ProcHangs"
    using that
    by (simp add: on_message_def handle_websocket_message_def process_commands_def py_iter_def
        dispatch_try_def restart_system_def log_def emit_def)
  obtain out w1 where r: "receive py fs ClosedOK w = (out, w1)"
    by (cases "receive py fs ClosedOK w")
  have seq: "receive py (fs @ p # gs) fin w = and_then (out, w1) (\<lambda>_. receive py (p # gs) fin)"
    using receive_append [of py fs "p # gs" fin w] r by simp
  have stuck: "receive py (fs @ p # gs) fin w = receive py fs ClosedOK w"
    if "fst (receive py fs ClosedOK w) \<noteq> Return ()"
    using that r seq by (cases out) simp_all
  have after: "\<exists>evs. trace (snd (receive py (fs @ p # gs) fin w))
              = trace (snd (receive py fs ClosedOK w)) @ evs"
  proof (cases out)
    case (Return u)
    have "grows w1 (snd (receive py (p # gs) fin w1))"
      by (rule grows_receive) simp
    with Return r seq show ?thesis by (simp add: grows_def)
  next
    case (Raise e)
    with r seq show ?thesis by simp
  next
    case Hang
    with r seq show ?thesis by simp
  qed
  from hang stuck after show ?thesis by blast
qed

theorem ping_gets_no_pong_while_command_runs_witness:
  "receive example_builtins (hanging_frame restart_text # [quiet_frame ping_text]) ClosedOK on_connection_1
   = (Hang,
      \<lparr>trace = [Log INFO (ProcessingCommand (PStr ''restart'')), Exec Restart_system,
                Log INFO SystemRestartRequested, Subprocess [''sudo'', ''systemctl'', ''reboot'']],
       websocket = Some 1\<rparr>)
   \<and> receive example_builtins ([hanging_frame restart_text] @ quiet_frame ping_text # []) ClosedOK on_connection_1
     = receive example_builtins [hanging_frame restart_text] ClosedOK on_connection_1"
proof -
  have hyp: "json_loads example_builtins (message (hanging_frame restart_text))
        = Inr (PDict [(''type'', PStr ''command''), (''data'', PDict [(''type'', PStr ''restart'')])])
      \<and> kind [(''type'', PStr ''command''), (''data'', PDict [(''type'', PStr ''restart'')])] = PStr ''command''
      \<and> payload [(''type'', PStr ''command''), (''data'', PDict [(''type'', PStr ''restart'')])]
        = PDict [(''type'', PStr ''restart'')]
      \<and> kind [(''type'', PStr ''restart'')] = PStr ''restart''
      \<and> frame_run (hanging_frame restart_text) [''sudo'', ''systemctl'', ''reboot''] = ProcHangs"
    by (simp add: kind_def payload_def)
  note a = ping_gets_no_pong_while_command_runs
    [where py = example_builtins and f = "hanging_frame restart_text"
       and kvs = "[(''type'', PStr ''command''), (''data'', PDict [(''type'', PStr ''restart'')])]"
       and cmd = "[(''type'', PStr ''restart'')]"
       and gs = "[quiet_frame ping_text]" and fin = ClosedOK and w = on_connection_1,
     THEN conjunct1, rule_format, OF hyp]
  have h: "fst (receive example_builtins [hanging_frame restart_text] ClosedOK on_connection_1) \<noteq> Return ()"
    by (simp add: on_message_def handle_websocket_message_def process_commands_def py_iter_def
        dispatch_try_def restart_system_def py_get_def on_connection_1_def log_def emit_def)
  note b = ping_gets_no_pong_while_command_runs
    [where py = example_builtins and fs = "[hanging_frame restart_text]" and p = "quiet_frame ping_text"
       and gs = "[]" and fin = ClosedOK and w = on_connection_1,
     THEN conjunct2, THEN conjunct1, rule_format, OF h]
  from a b show ?thesis
    by (simp add: on_connection_1_def)
qed

text \<open>
  Claim C2. After every failed connection attempt \<^verbatim>\<open>websocket_loop\<close> logs the cause
  and sleeps 30 seconds before the next attempt, and the loop does not end while the
  running flag is set. The code logs the cause and does not end, but it does not sleep:
  \<^verbatim>\<open>connect_websocket\<close> catches the \<^verbatim>\<open>Exception\<close> of the failed attempt itself
  and returns, so the handler of \<^verbatim>\<open>websocket_loop\<close> that holds
  \<^verbatim>\<open>asyncio.sleep(30)\<close> never runs and the next attempt follows at once. On two
  refused attempts in a row the trace holds two connects and two error lines and no sleep.
\<close>

theorem refused_connection_is_retried_without_cooldown:
  "websocket_loop example_config ''kiosk-1'' example_builtins [refused, refused] fresh
   = (None,
      \<lparr>trace = [Connect ''ws://kiosk.example/ws/devices/kiosk-1'' [],
                Log ERROR (WebSocketConnectionFailed OSError),
                Connect ''ws://kiosk.example/ws/devices/kiosk-1'' [],
                Log ERROR (WebSocketConnectionFailed OSError)],
       websocket = None\<rparr>)
   \<and> sleeps (trace (snd (websocket_loop example_config ''kiosk-1'' example_builtins
         [refused, refused] fresh))) = []"
proof -
  have url: "websocket_url ''kiosk-1'' ''http://kiosk.example'' = ''ws://kiosk.example/ws/devices/kiosk-1''"
    by (simp add: websocket_url_def)
  have hdr: "websocket_headers example_config = []"
    by (simp add: websocket_headers_def config_get_fallback_def example_config_def)
  have cfg: "config_get example_config ''server'' ''url'' = Inr ''http://kiosk.example''"
    by (simp add: config_get_def example_config_def)
  have one: "connect_websocket example_config ''kiosk-1'' example_builtins refused w
             = (Return (),
                w\<lparr>trace := trace w @ [Connect ''ws://kiosk.example/ws/devices/kiosk-1'' [],
                                         Log ERROR (WebSocketConnectionFailed OSError)]\<rparr>)" for w
    by (simp add: connect_websocket_def cfg url hdr refused_def log_def emit_def)
  have run: "ws_running refused"
    by (simp add: refused_def)
  show ?thesis
    by (simp add: one run fresh_def)
qed

end
